theory Spec2Isabelle
  imports Complex_Main
begin

section \<open>The finance ledger service (financeService.ts)\<close>

text \<open>
  A shallow embedding of the ledger store: the persisted document of categories and
  entries, its load-time normalisation, and the six mutations. Every function below
  carries the name of the TypeScript function it is translated from.
\<close>

subsection \<open>JavaScript values\<close>

text \<open>
  A JavaScript string is the sequence of its UTF-16 code units, each kept as a number.
  \<open>asc\<close> writes the code units of an ASCII literal.
\<close>

type_synonym jsstring = "nat list"

definition asc :: "string \<Rightarrow> jsstring" where
  "asc s = map of_char s"

text \<open>
  \<open>String.prototype.trim\<close>: strips white space and line terminators (ECMAScript
  WhiteSpace and LineTerminator: TAB, LF, VT, FF, CR, SP, NBSP, U+1680, U+2000..U+200A,
  U+2028, U+2029, U+202F, U+205F, U+3000, U+FEFF) from both ends.
\<close>

definition isWhiteSpace :: "nat \<Rightarrow> bool" where
  "isWhiteSpace c =
     (c \<in> set [0x9, 0xA, 0xB, 0xC, 0xD, 0x20, 0xA0, 0x1680, 0x2028, 0x2029, 0x202F,
               0x205F, 0x3000, 0xFEFF]
      \<or> (0x2000 \<le> c \<and> c \<le> 0x200A))"

definition trim :: "jsstring \<Rightarrow> jsstring" where
  "trim s = rev (dropWhile isWhiteSpace (rev (dropWhile isWhiteSpace s)))"

text \<open>
  A JavaScript number: a finite value, or one of NaN, +Infinity, -Infinity. A finite
  double is read as the real it denotes, \<open>Fin 0\<close> being +0; -0 is a value of its
  own, \<open>NegZero\<close>. The code only compares amounts with 0, tests them with
  \<open>Number.isFinite\<close> and copies them.
\<close>

datatype number = Fin real | NegZero | NaN | PosInf | NegInf

fun isFinite :: "number \<Rightarrow> bool" where
  "isFinite (Fin r) = True"
| "isFinite NegZero = True"
| "isFinite NaN = False"
| "isFinite PosInf = False"
| "isFinite NegInf = False"

text \<open>\<open>n <= 0\<close> in JavaScript: false for NaN.\<close>

fun leZero :: "number \<Rightarrow> bool" where
  "leZero (Fin r) = (r \<le> 0)"
| "leZero NegZero = True"
| "leZero NaN = False"
| "leZero PosInf = False"
| "leZero NegInf = True"

text \<open>
  What \<open>JSON.parse\<close> returns (\<open>raw: any\<close>). An object is the list of its
  properties, each name once; \<open>getProp\<close> reads one (\<open>None\<close> is \<open>undefined\<close>).
  A primitive or an array has no property named id, name, type, categoryId, amount, date,
  note or categories, so reading one gives \<open>undefined\<close>; \<open>entries\<close> of an array is
  a method, which \<open>Array.isArray\<close> rejects as it rejects \<open>undefined\<close>.
\<close>

datatype json =
    JNull
  | JBool bool
  | JNum number
  | JStr jsstring
  | JArr "json list"
  | JObj "(jsstring \<times> json) list"

fun getProp :: "json \<Rightarrow> jsstring \<Rightarrow> json option" where
  "getProp (JObj kvs) k = map_of kvs k"
| "getProp _ k = None"

text \<open>Truthiness, as \<open>item && ...\<close> tests it.\<close>

fun truthy :: "json \<Rightarrow> bool" where
  "truthy JNull = False"
| "truthy (JBool b) = b"
| "truthy (JNum (Fin r)) = (r \<noteq> 0)"
| "truthy (JNum NegZero) = False"
| "truthy (JNum NaN) = False"
| "truthy (JNum PosInf) = True"
| "truthy (JNum NegInf) = True"
| "truthy (JStr s) = (s \<noteq> [])"
| "truthy (JArr xs) = True"
| "truthy (JObj kvs) = True"

text \<open>\<open>typeof v === "string"\<close> and \<open>typeof v === "number"\<close>.\<close>

fun isString :: "json option \<Rightarrow> bool" where
  "isString (Some (JStr s)) = True"
| "isString _ = False"

fun isNumber :: "json option \<Rightarrow> bool" where
  "isNumber (Some (JNum n)) = True"
| "isNumber _ = False"

text \<open>
  The value \<open>JSON.parse\<close> gives back for what \<open>JSON.stringify\<close> wrote: a number
  that is not finite is written as \<open>null\<close>, -0 is written as \<open>0\<close>; everything
  else comes back as it was.
\<close>

fun numberJson :: "number \<Rightarrow> json" where
  "numberJson (Fin r) = JNum (Fin r)"
| "numberJson NegZero = JNum (Fin 0)"
| "numberJson NaN = JNull"
| "numberJson PosInf = JNull"
| "numberJson NegInf = JNull"

primrec reparse :: "json \<Rightarrow> json" where
  "reparse JNull = JNull"
| "reparse (JBool b) = JBool b"
| "reparse (JNum n) = numberJson n"
| "reparse (JStr s) = JStr s"
| "reparse (JArr xs) = JArr (map reparse xs)"
| "reparse (JObj kvs) = JObj (map (map_prod id reparse) kvs)"

subsection \<open>The data model\<close>

datatype CategoryType = Income | Expense

text \<open>
  \<open>normalizeData\<close> keeps the parsed objects that pass its filters as they are, so a
  loaded category or entry still has every other property the stored object had; the
  service never reads them, and \<open>JSON.stringify\<close> writes them back. \<open>c_rest\<close> and
  \<open>e_rest\<close> hold these properties. An object the service creates has none.
\<close>

record Category =
  c_id :: jsstring
  c_name :: jsstring
  c_type :: CategoryType
  c_rest :: "(jsstring \<times> json) list"

text \<open>
  \<open>note\<close> is declared a string, but \<open>normalizeData\<close> casts a parsed item to
  \<open>Entry\<close> without looking at its note: a loaded entry carries whatever the document
  had there (\<open>None\<close>: no such property).
\<close>

record Entry =
  e_id :: jsstring
  e_type :: CategoryType
  e_categoryId :: jsstring
  e_amount :: number
  e_date :: jsstring
  e_note :: "json option"
  e_rest :: "(jsstring \<times> json) list"

record FinanceData =
  categories :: "Category list"
  entries :: "Entry list"

text \<open>
  \<open>Omit<Entry, "id">\<close>, the argument of \<open>addEntry\<close> and \<open>updateEntry\<close>. The
  code reads \<open>input.note ?? ""\<close>, so the note may be missing (\<open>None\<close>).
\<close>

record EntryInput =
  i_type :: CategoryType
  i_categoryId :: jsstring
  i_amount :: number
  i_date :: jsstring
  i_note :: "jsstring option"

text \<open>
  The validation messages (the source's texts are Russian):
  \<^item> \<open>EnterCategoryName\<close>: "enter a category name" (line 141);
  \<^item> \<open>CategoryNotFound\<close>: "category not found" (lines 145, 164, 191);
  \<^item> \<open>NeedCategoryOfEachType\<close>: "need at least one category of each type"
    (lines 151, 173);
  \<^item> \<open>CategoryInUse\<close>: "category is used in entries" (line 168);
  \<^item> \<open>EntryNotFound\<close>: "entry not found" (line 187);
  \<^item> \<open>EnterAmountAboveZero\<close>: "enter an amount greater than 0" (line 194).
\<close>

datatype error =
    EnterCategoryName
  | CategoryNotFound
  | NeedCategoryOfEachType
  | CategoryInUse
  | EntryNotFound
  | EnterAmountAboveZero

text \<open>\<open>{ data: FinanceData; error?: string }\<close>\<close>

record Result =
  data :: FinanceData
  error :: "error option"

subsection \<open>The world: the settings store and the UUID generator\<close>

text \<open>
  What the settings store holds under the key \<open>financeData\<close>, read through
  \<open>getString(DATA_KEY, "")\<close> and \<open>JSON.parse\<close>: nothing (or the empty string), a
  text that \<open>JSON.parse\<close> rejects, or a text that parses to a value.
\<close>

datatype stored = Absent | Unparseable | Parsed json

text \<open>
  \<open>crypto.randomUUID()\<close> is an input of the program: \<open>uuids w n\<close> is the value its
  \<open>n\<close>-th call returns, \<open>drawn w\<close> counts the calls made so far.
\<close>

record world =
  store :: stored
  uuids :: "nat \<Rightarrow> jsstring"
  drawn :: nat

definition randomUUID :: "world \<Rightarrow> jsstring \<times> world" where
  "randomUUID w = (uuids w (drawn w), w\<lparr>drawn := Suc (drawn w)\<rparr>)"

definition createId :: "jsstring \<Rightarrow> world \<Rightarrow> jsstring \<times> world" where
  "createId prefix w = (let (u, w') = randomUUID w in (prefix @ asc ''_'' @ u, w'))"

text \<open>The two default names, "Zarplata" (salary) and "Eda" (food), in Cyrillic.\<close>

definition nameSalary :: jsstring where
  "nameSalary = [0x417, 0x430, 0x440, 0x43F, 0x43B, 0x430, 0x442, 0x430]"

definition nameFood :: jsstring where
  "nameFood = [0x415, 0x434, 0x430]"

definition buildDefaultCategories :: "world \<Rightarrow> Category list \<times> world" where
  "buildDefaultCategories w =
     (let (i1, w1) = createId (asc ''cat'') w;
          (i2, w2) = createId (asc ''cat'') w1
      in ([\<lparr>c_id = i1, c_name = nameSalary, c_type = Income, c_rest = []\<rparr>,
           \<lparr>c_id = i2, c_name = nameFood, c_type = Expense, c_rest = []\<rparr>], w2))"

subsection \<open>Normalisation\<close>

definition typeName :: "CategoryType \<Rightarrow> jsstring" where
  "typeName t = (case t of Income \<Rightarrow> asc ''income'' | Expense \<Rightarrow> asc ''expense'')"

text \<open>\<open>item.type === "income" || item.type === "expense"\<close>\<close>

definition isTypeName :: "json option \<Rightarrow> bool" where
  "isTypeName v = (v = Some (JStr (asc ''income'')) \<or> v = Some (JStr (asc ''expense'')))"

text \<open>The two filter predicates of \<open>normalizeData\<close> (lines 42-46 and 49-55).\<close>

definition isCategoryItem :: "json \<Rightarrow> bool" where
  "isCategoryItem item =
     (truthy item \<and>
      isString (getProp item (asc ''id'')) \<and>
      isString (getProp item (asc ''name'')) \<and>
      isTypeName (getProp item (asc ''type'')))"

definition isEntryItem :: "json \<Rightarrow> bool" where
  "isEntryItem item =
     (truthy item \<and>
      isString (getProp item (asc ''id'')) \<and>
      isString (getProp item (asc ''categoryId'')) \<and>
      isNumber (getProp item (asc ''amount'')) \<and>
      isString (getProp item (asc ''date'')) \<and>
      isTypeName (getProp item (asc ''type'')))"

text \<open>
  The casts \<open>as Category[]\<close> and \<open>as Entry[]\<close>: an item that passed the filter, read
  as a record. The fall-through values are never reached on such an item. The properties
  under other names than the declared ones go to \<open>c_rest\<close> and \<open>e_rest\<close>.
\<close>

definition categoryKeys :: "jsstring list" where
  "categoryKeys = [asc ''id'', asc ''name'', asc ''type'']"

definition entryKeys :: "jsstring list" where
  "entryKeys =
     [asc ''id'', asc ''type'', asc ''categoryId'', asc ''amount'', asc ''date'', asc ''note'']"

fun otherProps :: "jsstring list \<Rightarrow> json \<Rightarrow> (jsstring \<times> json) list" where
  "otherProps ks (JObj kvs) = filter (\<lambda>kv. fst kv \<notin> set ks) kvs"
| "otherProps ks _ = []"

fun stringOf :: "json option \<Rightarrow> jsstring" where
  "stringOf (Some (JStr s)) = s"
| "stringOf _ = []"

fun numberOf :: "json option \<Rightarrow> number" where
  "numberOf (Some (JNum n)) = n"
| "numberOf _ = NaN"

definition typeOf :: "json option \<Rightarrow> CategoryType" where
  "typeOf v = (if v = Some (JStr (asc ''income'')) then Income else Expense)"

definition asCategory :: "json \<Rightarrow> Category" where
  "asCategory item =
     \<lparr>c_id = stringOf (getProp item (asc ''id'')),
      c_name = stringOf (getProp item (asc ''name'')),
      c_type = typeOf (getProp item (asc ''type'')),
      c_rest = otherProps categoryKeys item\<rparr>"

definition asEntry :: "json \<Rightarrow> Entry" where
  "asEntry item =
     \<lparr>e_id = stringOf (getProp item (asc ''id'')),
      e_type = typeOf (getProp item (asc ''type'')),
      e_categoryId = stringOf (getProp item (asc ''categoryId'')),
      e_amount = numberOf (getProp item (asc ''amount'')),
      e_date = stringOf (getProp item (asc ''date'')),
      e_note = getProp item (asc ''note''),
      e_rest = otherProps entryKeys item\<rparr>"

text \<open>\<open>Array.isArray(raw?.categories) ? raw.categories : []\<close>\<close>

definition arrayProp :: "json \<Rightarrow> jsstring \<Rightarrow> json list" where
  "arrayProp raw k = (case getProp raw k of Some (JArr xs) \<Rightarrow> xs | _ \<Rightarrow> [])"

definition hasType :: "CategoryType \<Rightarrow> Category list \<Rightarrow> bool" where
  "hasType t cs = list_ex (\<lambda>cat. c_type cat = t) cs"

definition normalizeData :: "json \<Rightarrow> world \<Rightarrow> FinanceData \<times> world" where
  "normalizeData raw w =
     (let cats = arrayProp raw (asc ''categories'');
          ents = arrayProp raw (asc ''entries'');
          sanitizedCategories = map asCategory (filter isCategoryItem cats);
          sanitizedEntries = map asEntry (filter isEntryItem ents);
          hasIncome = hasType Income sanitizedCategories;
          hasExpense = hasType Expense sanitizedCategories
      in if \<not> hasIncome \<or> \<not> hasExpense then
           (let (defaults, w') = buildDefaultCategories w;
                cs1 = (if \<not> hasIncome
                       then sanitizedCategories
                            @ [the (List.find (\<lambda>cat. c_type cat = Income) defaults)]
                       else sanitizedCategories);
                cs2 = (if \<not> hasExpense
                       then cs1 @ [the (List.find (\<lambda>cat. c_type cat = Expense) defaults)]
                       else cs1)
            in (\<lparr>categories = cs2, entries = sanitizedEntries\<rparr>, w'))
         else (\<lparr>categories = sanitizedCategories, entries = sanitizedEntries\<rparr>, w))"

subsection \<open>Saving and loading\<close>

text \<open>
  \<open>saveData\<close> stores the text \<open>JSON.stringify(data)\<close>; \<open>jsonOf data\<close> is the value
  that text parses to. \<open>JSON.stringify\<close> leaves out a property that is
  \<open>undefined\<close>, writes every other property of an object, and writes numbers as
  \<open>numberJson\<close> says.
\<close>

definition categoryJson :: "Category \<Rightarrow> json" where
  "categoryJson c =
     JObj ([(asc ''id'', JStr (c_id c)),
            (asc ''name'', JStr (c_name c)),
            (asc ''type'', JStr (typeName (c_type c)))]
           @ map (map_prod id reparse) (c_rest c))"

definition entryJson :: "Entry \<Rightarrow> json" where
  "entryJson e =
     JObj ([(asc ''id'', JStr (e_id e)),
            (asc ''type'', JStr (typeName (e_type e))),
            (asc ''categoryId'', JStr (e_categoryId e)),
            (asc ''amount'', numberJson (e_amount e)),
            (asc ''date'', JStr (e_date e))]
           @ (case e_note e of None \<Rightarrow> [] | Some v \<Rightarrow> [(asc ''note'', reparse v)])
           @ map (map_prod id reparse) (e_rest e))"

definition jsonOf :: "FinanceData \<Rightarrow> json" where
  "jsonOf d =
     JObj [(asc ''categories'', JArr (map categoryJson (categories d))),
           (asc ''entries'', JArr (map entryJson (entries d)))]"

definition saveData :: "FinanceData \<Rightarrow> world \<Rightarrow> world" where
  "saveData d w = w\<lparr>store := Parsed (jsonOf d)\<rparr>"

definition loadFinanceData :: "world \<Rightarrow> FinanceData \<times> world" where
  "loadFinanceData w =
     (case store w of
        Absent \<Rightarrow>
          (let (cs, w1) = buildDefaultCategories w;
               d = \<lparr>categories = cs, entries = []\<rparr>
           in (d, saveData d w1))
      | Parsed parsed \<Rightarrow>
          (let (d, w1) = normalizeData parsed w
           in (d, saveData d w1))
      | Unparseable \<Rightarrow>
          (let (cs, w1) = buildDefaultCategories w;
               d = \<lparr>categories = cs, entries = []\<rparr>
           in (d, saveData d w1)))"

text \<open>
  What \<open>JSON.stringify\<close> and \<open>JSON.parse\<close> give back as it is: a number that is
  finite and not -0; a property list whose values hold no other number; an entry with
  such an amount, such a note if it has one, and such other properties.
\<close>

definition numberKept :: "number \<Rightarrow> bool" where
  "numberKept n = (isFinite n \<and> n \<noteq> NegZero)"

definition propsKept :: "(jsstring \<times> json) list \<Rightarrow> bool" where
  "propsKept kvs = list_all (\<lambda>kv. reparse (snd kv) = snd kv) kvs"

definition categoryKept :: "Category \<Rightarrow> bool" where
  "categoryKept c = propsKept (c_rest c)"

definition entryKept :: "Entry \<Rightarrow> bool" where
  "entryKept e =
     (numberKept (e_amount e) \<and>
      (case e_note e of None \<Rightarrow> True | Some v \<Rightarrow> reparse v = v) \<and>
      propsKept (e_rest e))"

definition documentKept :: "FinanceData \<Rightarrow> bool" where
  "documentKept d = (list_all categoryKept (categories d) \<and> list_all entryKept (entries d))"

text \<open>
  The other properties of an item that \<open>normalizeData\<close> built or the service created
  carry none of the declared names.
\<close>

definition cleanCategory :: "Category \<Rightarrow> bool" where
  "cleanCategory c = list_all (\<lambda>kv. fst kv \<notin> set categoryKeys) (c_rest c)"

definition cleanEntry :: "Entry \<Rightarrow> bool" where
  "cleanEntry e = list_all (\<lambda>kv. fst kv \<notin> set entryKeys) (e_rest e)"

definition cleanDocument :: "FinanceData \<Rightarrow> bool" where
  "cleanDocument d = (list_all cleanCategory (categories d) \<and> list_all cleanEntry (entries d))"

definition sound :: "FinanceData \<Rightarrow> bool" where
  "sound d = (documentKept d \<and> cleanDocument d)"

subsection \<open>The mutations\<close>

text \<open>
  \<open>xs.find(p)\<close> followed by assignments to the fields of the object found: the first
  element that satisfies \<open>p\<close> is changed in place, the others stay. (The objects of a
  parsed document are pairwise different objects.)
\<close>

fun mutateFirst :: "('a \<Rightarrow> bool) \<Rightarrow> ('a \<Rightarrow> 'a) \<Rightarrow> 'a list \<Rightarrow> 'a list" where
  "mutateFirst p f [] = []"
| "mutateFirst p f (x # xs) = (if p x then f x # xs else x # mutateFirst p f xs)"

definition addCategory :: "jsstring \<Rightarrow> CategoryType \<Rightarrow> world \<Rightarrow> FinanceData \<times> world" where
  "addCategory name type w =
     (let (d, w1) = loadFinanceData w;
          trimmed = trim name
      in if trimmed = [] then (d, w1)
         else
           (let (newId, w2) = createId (asc ''cat'') w1;
                newCategory = \<lparr>c_id = newId, c_name = trimmed, c_type = type, c_rest = []\<rparr>;
                d' = d\<lparr>categories := categories d @ [newCategory]\<rparr>
            in (d', saveData d' w2)))"

definition addEntry :: "EntryInput \<Rightarrow> world \<Rightarrow> FinanceData \<times> world" where
  "addEntry input w =
     (let (d, w1) = loadFinanceData w;
          categoryExists = list_ex (\<lambda>cat. c_id cat = i_categoryId input) (categories d)
      in if \<not> categoryExists then (d, w1)
         else
           (let (newId, w2) = createId (asc ''entry'') w1;
                entry = \<lparr>e_id = newId,
                         e_type = i_type input,
                         e_categoryId = i_categoryId input,
                         e_amount = i_amount input,
                         e_date = i_date input,
                         e_note = Some (JStr (case i_note input of None \<Rightarrow> [] | Some s \<Rightarrow> s)),
 e_rest = []\<rparr>;
                d' = d\<lparr>entries := entry # entries d\<rparr>
            in (d', saveData d' w2)))"

definition updateCategory ::
  "jsstring \<Rightarrow> jsstring \<Rightarrow> CategoryType \<Rightarrow> world \<Rightarrow> Result \<times> world" where
  "updateCategory ident name type w =
     (let (d, w1) = loadFinanceData w;
          trimmed = trim name
      in if trimmed = [] then (\<lparr>data = d, error = Some EnterCategoryName\<rparr>, w1)
         else
           (case List.find (\<lambda>cat. c_id cat = ident) (categories d) of
              None \<Rightarrow> (\<lparr>data = d, error = Some CategoryNotFound\<rparr>, w1)
            | Some category \<Rightarrow>
                if c_type category \<noteq> type \<and>
                   length (filter (\<lambda>cat. c_type cat = c_type category) (categories d)) \<le> 1
                then (\<lparr>data = d, error = Some NeedCategoryOfEachType\<rparr>, w1)
                else
                  (let d' = d\<lparr>categories :=
                              mutateFirst (\<lambda>cat. c_id cat = ident)
                                (\<lambda>cat. cat\<lparr>c_name := trimmed, c_type := type\<rparr>)
                                (categories d)\<rparr>
                   in (\<lparr>data = d', error = None\<rparr>, saveData d' w1))))"

definition deleteCategory :: "jsstring \<Rightarrow> world \<Rightarrow> Result \<times> world" where
  "deleteCategory ident w =
     (let (d, w1) = loadFinanceData w
      in case List.find (\<lambda>cat. c_id cat = ident) (categories d) of
           None \<Rightarrow> (\<lparr>data = d, error = Some CategoryNotFound\<rparr>, w1)
         | Some category \<Rightarrow>
             if list_ex (\<lambda>entry. e_categoryId entry = ident) (entries d)
             then (\<lparr>data = d, error = Some CategoryInUse\<rparr>, w1)
             else if length (filter (\<lambda>cat. c_type cat = c_type category) (categories d)) \<le> 1
             then (\<lparr>data = d, error = Some NeedCategoryOfEachType\<rparr>, w1)
             else
               (let d' = d\<lparr>categories := filter (\<lambda>cat. c_id cat \<noteq> ident) (categories d)\<rparr>
                in (\<lparr>data = d', error = None\<rparr>, saveData d' w1)))"

definition updateEntry :: "jsstring \<Rightarrow> EntryInput \<Rightarrow> world \<Rightarrow> Result \<times> world" where
  "updateEntry ident input w =
     (let (d, w1) = loadFinanceData w
      in case List.find (\<lambda>item. e_id item = ident) (entries d) of
           None \<Rightarrow> (\<lparr>data = d, error = Some EntryNotFound\<rparr>, w1)
         | Some entry \<Rightarrow>
             if \<not> list_ex (\<lambda>cat. c_id cat = i_categoryId input) (categories d)
             then (\<lparr>data = d, error = Some CategoryNotFound\<rparr>, w1)
             else if \<not> isFinite (i_amount input) \<or> leZero (i_amount input)
             then (\<lparr>data = d, error = Some EnterAmountAboveZero\<rparr>, w1)
             else
               (let d' = d\<lparr>entries :=
                           mutateFirst (\<lambda>item. e_id item = ident)
                             (\<lambda>item. item\<lparr>e_type := i_type input,
                                           e_categoryId := i_categoryId input,
                                           e_amount := i_amount input,
                                           e_date := i_date input,
                                           e_note := Some (JStr (case i_note input of
                                                                   None \<Rightarrow> [] | Some s \<Rightarrow> s))\<rparr>)
                             (entries d)\<rparr>
                in (\<lparr>data = d', error = None\<rparr>, saveData d' w1)))"

definition deleteEntry :: "jsstring \<Rightarrow> world \<Rightarrow> FinanceData \<times> world" where
  "deleteEntry ident w =
     (let (d, w1) = loadFinanceData w;
          d' = d\<lparr>entries := filter (\<lambda>entry. e_id entry \<noteq> ident) (entries d)\<rparr>
      in (d', saveData d' w1))"

subsection \<open>Reading the result of a load\<close>

abbreviation loaded :: "world \<Rightarrow> FinanceData" where
  "loaded w \<equiv> fst (loadFinanceData w)"

abbreviation afterLoad :: "world \<Rightarrow> world" where
  "afterLoad w \<equiv> snd (loadFinanceData w)"

subsection \<open>Example worlds\<close>

text \<open>An empty store; the generator returns "a", "aa", "aaa", ...\<close>

definition freshWorld :: world where
  "freshWorld = \<lparr>store = Absent, uuids = (\<lambda>n. replicate (Suc n) 0x61), drawn = 0\<rparr>"

text \<open>A stored ledger: two income categories, one expense category, one entry.\<close>

definition sampleDoc :: FinanceData where
  "sampleDoc =
     \<lparr>categories =
        [\<lparr>c_id = asc ''c1'', c_name = asc ''Pay'', c_type = Income, c_rest = []\<rparr>,
         \<lparr>c_id = asc ''c2'', c_name = asc ''Food'', c_type = Expense, c_rest = []\<rparr>,
         \<lparr>c_id = asc ''c3'', c_name = asc ''Gifts'', c_type = Income, c_rest = []\<rparr>],
      entries =
        [\<lparr>e_id = asc ''e1'', e_type = Income, e_categoryId = asc ''c1'',
          e_amount = Fin 1000, e_date = asc ''2024-01-05'', e_note = Some (JStr []), e_rest = []\<rparr>]\<rparr>"

definition sampleWorld :: world where
  "sampleWorld = \<lparr>store = Parsed (jsonOf sampleDoc), uuids = (\<lambda>n. replicate (Suc n) 0x61), drawn = 0\<rparr>"

text \<open>An input without a note, for the expense category of the stored ledger.\<close>

definition sampleInput :: EntryInput where
  "sampleInput = \<lparr>i_type = Expense, i_categoryId = asc ''c2'', i_amount = Fin 250,
                   i_date = asc ''2023-12-31'', i_note = None\<rparr>"

text \<open>A stored document in which two categories share the id "a".\<close>

definition duplicateIdDoc :: json where
  "duplicateIdDoc =
     JObj [(asc ''categories'',
            JArr [JObj [(asc ''id'', JStr (asc ''a'')), (asc ''name'', JStr (asc ''Pay'')),
                        (asc ''type'', JStr (asc ''income''))],
                  JObj [(asc ''id'', JStr (asc ''a'')), (asc ''name'', JStr (asc ''Gifts'')),
                        (asc ''type'', JStr (asc ''income''))],
                  JObj [(asc ''id'', JStr (asc ''b'')), (asc ''name'', JStr (asc ''Food'')),
                        (asc ''type'', JStr (asc ''expense''))]]),
           (asc ''entries'', JArr [])]"

definition duplicateIdWorld :: world where
  "duplicateIdWorld =
     \<lparr>store = Parsed duplicateIdDoc, uuids = (\<lambda>n. replicate (Suc n) 0x61), drawn = 0\<rparr>"

text \<open>
  A stored document without categories whose one entry refers to a category that does
  not exist, has a negative amount and no note.
\<close>

definition danglingDoc :: json where
  "danglingDoc =
     JObj [(asc ''categories'', JArr []),
           (asc ''entries'',
            JArr [JObj [(asc ''id'', JStr (asc ''e9'')),
                        (asc ''type'', JStr (asc ''income'')),
                        (asc ''categoryId'', JStr (asc ''gone'')),
                        (asc ''amount'', JNum (Fin (- 5))),
                        (asc ''date'', JStr (asc ''someday''))]])]"

definition danglingWorld :: world where
  "danglingWorld =
     \<lparr>store = Parsed danglingDoc, uuids = (\<lambda>n. replicate (Suc n) 0x61), drawn = 0\<rparr>"

text \<open>
  Stored documents with a category "a" of type income, a category "b" of type expense
  and one entry "e1" of category "a" with the given amount and the given further
  properties; and the world that holds a given stored document.
\<close>

definition oneEntryDoc :: "number \<Rightarrow> (jsstring \<times> json) list \<Rightarrow> json" where
  "oneEntryDoc amount others =
     JObj [(asc ''categories'',
            JArr [JObj [(asc ''id'', JStr (asc ''a'')), (asc ''name'', JStr (asc ''Pay'')),
                        (asc ''type'', JStr (asc ''income''))],
                  JObj [(asc ''id'', JStr (asc ''b'')), (asc ''name'', JStr (asc ''Food'')),
                        (asc ''type'', JStr (asc ''expense''))]]),
           (asc ''entries'',
            JArr [JObj ([(asc ''id'', JStr (asc ''e1'')),
                         (asc ''type'', JStr (asc ''income'')),
                         (asc ''categoryId'', JStr (asc ''a'')),
                         (asc ''amount'', JNum amount),
                         (asc ''date'', JStr (asc ''2024-01-05''))] @ others)])]"

definition storedWorld :: "json \<Rightarrow> world" where
  "storedWorld j = \<lparr>store = Parsed j, uuids = (\<lambda>n. replicate (Suc n) 0x61), drawn = 0\<rparr>"

text \<open>
  A stored document without entries whose income category has a further property,
  \<open>weight\<close>, with the value +Infinity (what \<open>JSON.parse\<close> returns for a literal such
  as 1e999).
\<close>

definition weightDoc :: json where
  "weightDoc =
     JObj [(asc ''categories'',
            JArr [JObj [(asc ''id'', JStr (asc ''a'')), (asc ''name'', JStr (asc ''Pay'')),
                        (asc ''type'', JStr (asc ''income'')),
                        (asc ''weight'', JNum PosInf)],
                  JObj [(asc ''id'', JStr (asc ''b'')), (asc ''name'', JStr (asc ''Food'')),
                        (asc ''type'', JStr (asc ''expense''))]]),
           (asc ''entries'', JArr [])]"

section \<open>Properties\<close>

subsection \<open>Basic facts\<close>

lemma asc_eq_iff [simp]: "asc s = asc t \<longleftrightarrow> s = t"
  by (simp add: asc_def inj_of_char)

lemma buildDefaultCategories_eq:
  "buildDefaultCategories w =
     ([\<lparr>c_id = asc ''cat'' @ asc ''_'' @ uuids w (drawn w), c_name = nameSalary,
         c_type = Income, c_rest = []\<rparr>,
       \<lparr>c_id = asc ''cat'' @ asc ''_'' @ uuids w (Suc (drawn w)), c_name = nameFood,
         c_type = Expense, c_rest = []\<rparr>],
      w\<lparr>drawn := Suc (Suc (drawn w))\<rparr>)"
  by (simp add: buildDefaultCategories_def createId_def randomUUID_def)

lemma hasType_append [simp]: "hasType t (xs @ ys) \<longleftrightarrow> hasType t xs \<or> hasType t ys"
  by (auto simp: hasType_def list_ex_iff)

lemma hasType_iff: "hasType t cs \<longleftrightarrow> (\<exists>c \<in> set cs. c_type c = t)"
  by (simp add: hasType_def list_ex_iff)

lemma normalizeData_hasType: "hasType t (categories (fst (normalizeData raw w)))"
  by (cases t)
     (auto simp: normalizeData_def Let_def buildDefaultCategories_eq hasType_def
           split: prod.splits)

lemma load_Absent:
  "store w = Absent \<or> store w = Unparseable \<Longrightarrow>
   loadFinanceData w =
     (\<lparr>categories = fst (buildDefaultCategories w), entries = []\<rparr>,
      saveData \<lparr>categories = fst (buildDefaultCategories w), entries = []\<rparr>
        (snd (buildDefaultCategories w)))"
  by (auto simp: loadFinanceData_def Let_def split: prod.splits)

lemma load_Parsed:
  "store w = Parsed raw \<Longrightarrow>
   loadFinanceData w =
     (fst (normalizeData raw w),
      saveData (fst (normalizeData raw w)) (snd (normalizeData raw w)))"
  by (auto simp: loadFinanceData_def Let_def split: prod.splits)

lemma load_store: "store (afterLoad w) = Parsed (jsonOf (loaded w))"
  by (cases "store w") (simp_all add: load_Absent load_Parsed saveData_def)

lemma load_hasType: "hasType t (categories (loaded w))"
proof (cases "store w")
  case (Parsed raw)
  then show ?thesis by (simp add: load_Parsed normalizeData_hasType)
next
  case Absent
  then show ?thesis
    by (cases t) (simp_all add: load_Absent buildDefaultCategories_eq hasType_def)
next
  case Unparseable
  then show ?thesis
    by (cases t) (simp_all add: load_Absent buildDefaultCategories_eq hasType_def)
qed

subsection \<open>Loading\<close>

text \<open>
  C1. Whatever the store holds (nothing, a text that does not parse, or a text that parses
  to any value at all), the document that \<open>loadFinanceData\<close> returns has a category of
  type income and a category of type expense. For a text that parses, the categories
  returned are the well-formed ones of the document, followed by the default income
  category if none of them is an income category, followed by the default expense
  category if none of them is an expense category.
\<close>

theorem load_has_each_type:
  "list_ex (\<lambda>cat. c_type cat = Income) (categories (fst (loadFinanceData w))) \<and>
   list_ex (\<lambda>cat. c_type cat = Expense) (categories (fst (loadFinanceData w))) \<and>
   (store w = Parsed raw \<longrightarrow>
      (let kept = map asCategory (filter isCategoryItem (arrayProp raw (asc ''categories'')))
       in categories (fst (loadFinanceData w)) =
            kept
            @ (if list_ex (\<lambda>cat. c_type cat = Income) kept then []
               else [\<lparr>c_id = asc ''cat_'' @ uuids w (drawn w), c_name = nameSalary,
                      c_type = Income, c_rest = []\<rparr>])
            @ (if list_ex (\<lambda>cat. c_type cat = Expense) kept then []
               else [\<lparr>c_id = asc ''cat_'' @ uuids w (Suc (drawn w)), c_name = nameFood,
                      c_type = Expense, c_rest = []\<rparr>])))"
  using load_hasType [of Income w] load_hasType [of Expense w]
  by (simp add: hasType_def load_Parsed normalizeData_def Let_def buildDefaultCategories_eq
        asc_def)

theorem load_has_each_type_witness:
  "store danglingWorld = Parsed danglingDoc \<and>
   categories (fst (loadFinanceData danglingWorld)) =
     [\<lparr>c_id = asc ''cat_a'', c_name = nameSalary, c_type = Income, c_rest = []\<rparr>,
      \<lparr>c_id = asc ''cat_aa'', c_name = nameFood, c_type = Expense, c_rest = []\<rparr>]"
proof -
  have st: "store danglingWorld = Parsed danglingDoc"
    by (simp add: danglingWorld_def)
  have no: "arrayProp danglingDoc (asc ''categories'') = []"
    by (simp add: danglingDoc_def arrayProp_def)
  have sel: "drawn danglingWorld = 0" "uuids danglingWorld 0 = [0x61]"
            "uuids danglingWorld (Suc 0) = [0x61, 0x61]"
    by (simp_all add: danglingWorld_def)
  have ids: "asc ''cat_'' @ [0x61] = asc ''cat_a''" "asc ''cat_'' @ [0x61, 0x61] = asc ''cat_aa''"
    by (simp_all add: asc_def)
  from load_has_each_type [of danglingWorld danglingDoc] st
  show ?thesis
    by (simp add: no sel ids)
qed

text \<open>
  C8. When the store holds no document, or one that does not parse, \<open>loadFinanceData\<close>
  returns exactly two categories, the default income category and the default expense
  category with freshly generated ids, and no entries, and it has persisted that document.
\<close>

theorem load_fresh_store:
  "store w = Absent \<or> store w = Unparseable \<Longrightarrow>
   categories (fst (loadFinanceData w)) =
     [\<lparr>c_id = asc ''cat_'' @ uuids w (drawn w), c_name = nameSalary, c_type = Income, c_rest = []\<rparr>,
      \<lparr>c_id = asc ''cat_'' @ uuids w (Suc (drawn w)), c_name = nameFood, c_type = Expense, c_rest = []\<rparr>]
   \<and> entries (fst (loadFinanceData w)) = []
   \<and> store (snd (loadFinanceData w)) = Parsed (jsonOf (fst (loadFinanceData w)))"
  by (simp add: load_Absent buildDefaultCategories_eq saveData_def asc_def)

theorem load_fresh_store_witness:
  "map c_type (categories (fst (loadFinanceData freshWorld))) = [Income, Expense]
   \<and> entries (fst (loadFinanceData freshWorld)) = []"
  using load_fresh_store [of freshWorld]
  by (simp add: freshWorld_def)

subsection \<open>Lists\<close>

lemma find_None_iff_ids: "List.find (\<lambda>x. f x = k) xs = None \<longleftrightarrow> k \<notin> f ` set xs"
  by (auto simp: find_None_iff)

lemma find_split:
  "List.find p xs = Some x \<Longrightarrow>
   \<exists>pre post. xs = pre @ x # post \<and> p x \<and> (\<forall>y \<in> set pre. \<not> p y)"
proof (induction xs)
  case Nil
  then show ?case by simp
next
  case (Cons a xs)
  show ?case
  proof (cases "p a")
    case True
    with Cons.prems have "a = x" by simp
    with True show ?thesis by (intro exI [of _ "[]"] exI [of _ xs]) simp
  next
    case False
    with Cons.prems have "List.find p xs = Some x" by simp
    from Cons.IH [OF this] obtain pre post
      where "xs = pre @ x # post" "p x" "\<forall>y \<in> set pre. \<not> p y" by blast
    with False show ?thesis by (intro exI [of _ "a # pre"] exI [of _ post]) simp
  qed
qed

lemma mutateFirst_split:
  "\<forall>y \<in> set pre. \<not> p y \<Longrightarrow> p x \<Longrightarrow> mutateFirst p f (pre @ x # post) = pre @ f x # post"
  by (induction pre) simp_all

lemma find_Some_mem: "List.find p xs = Some x \<Longrightarrow> x \<in> set xs \<and> p x"
  by (auto dest: find_split)

lemma filter_length_pos: "x \<in> set xs \<Longrightarrow> p x \<Longrightarrow> 0 < length (filter p xs)"
  by (induction xs) auto

lemma find_same_type_count:
  "List.find p cs = Some c \<Longrightarrow> 0 < length (filter (\<lambda>x. c_type x = c_type c) cs)"
  by (rule filter_length_pos [of c]) (simp_all add: find_Some_mem)

lemma list_ex_image_iff: "list_ex (\<lambda>x. f x = k) xs \<longleftrightarrow> k \<in> f ` set xs"
  by (auto simp: list_ex_iff)

lemma mutateFirst_no_match: "\<forall>x \<in> set xs. \<not> p x \<Longrightarrow> mutateFirst p f xs = xs"
  by (induction xs) simp_all

lemma hasType_Cons [simp]: "hasType t (c # cs) \<longleftrightarrow> c_type c = t \<or> hasType t cs"
  by (simp add: hasType_def)

lemma hasType_Nil [simp]: "\<not> hasType t []"
  by (simp add: hasType_def)

lemma filter_none: "\<forall>x \<in> set xs. \<not> p x \<Longrightarrow> filter p xs = []"
  by (induction xs) simp_all

lemma hasType_filter_empty: "\<not> hasType t cs \<Longrightarrow> filter (\<lambda>x. c_type x = t) cs = []"
  by (rule filter_none) (simp add: hasType_iff)

lemma isString_iff: "isString v \<longleftrightarrow> (\<exists>s. v = Some (JStr s))"
  by (cases v rule: isString.cases) simp_all

lemma isNumber_iff: "isNumber v \<longleftrightarrow> (\<exists>n. v = Some (JNum n))"
  by (cases v rule: isNumber.cases) simp_all

lemma isTypeName_iff: "isTypeName v \<longleftrightarrow> (\<exists>t. v = Some (JStr (typeName t)))"
proof
  assume "isTypeName v"
  then consider "v = Some (JStr (typeName Income))" | "v = Some (JStr (typeName Expense))"
    by (auto simp: isTypeName_def typeName_def)
  then show "\<exists>t. v = Some (JStr (typeName t))" by cases blast+
next
  assume "\<exists>t. v = Some (JStr (typeName t))"
  then obtain t where "v = Some (JStr (typeName t))" ..
  then show "isTypeName v" by (cases t) (simp_all add: isTypeName_def typeName_def)
qed

subsection \<open>Each operation, in terms of the loaded document\<close>

lemma updateCategory_eq:
  "updateCategory ident name type w =
     (if trim name = [] then (\<lparr>data = loaded w, error = Some EnterCategoryName\<rparr>, afterLoad w)
      else case List.find (\<lambda>cat. c_id cat = ident) (categories (loaded w)) of
             None \<Rightarrow> (\<lparr>data = loaded w, error = Some CategoryNotFound\<rparr>, afterLoad w)
           | Some category \<Rightarrow>
               if c_type category \<noteq> type \<and>
                  length (filter (\<lambda>cat. c_type cat = c_type category) (categories (loaded w))) \<le> 1
               then (\<lparr>data = loaded w, error = Some NeedCategoryOfEachType\<rparr>, afterLoad w)
               else
                 (\<lparr>data = (loaded w)\<lparr>categories :=
                             mutateFirst (\<lambda>cat. c_id cat = ident)
                               (\<lambda>cat. cat\<lparr>c_name := trim name, c_type := type\<rparr>)
                               (categories (loaded w))\<rparr>,
                   error = None\<rparr>,
                  saveData ((loaded w)\<lparr>categories :=
                             mutateFirst (\<lambda>cat. c_id cat = ident)
                               (\<lambda>cat. cat\<lparr>c_name := trim name, c_type := type\<rparr>)
                               (categories (loaded w))\<rparr>) (afterLoad w)))"
  by (simp add: updateCategory_def Let_def split_beta split: option.splits)

lemma deleteCategory_eq:
  "deleteCategory ident w =
     (case List.find (\<lambda>cat. c_id cat = ident) (categories (loaded w)) of
        None \<Rightarrow> (\<lparr>data = loaded w, error = Some CategoryNotFound\<rparr>, afterLoad w)
      | Some category \<Rightarrow>
          if list_ex (\<lambda>entry. e_categoryId entry = ident) (entries (loaded w))
          then (\<lparr>data = loaded w, error = Some CategoryInUse\<rparr>, afterLoad w)
          else if length (filter (\<lambda>cat. c_type cat = c_type category) (categories (loaded w))) \<le> 1
          then (\<lparr>data = loaded w, error = Some NeedCategoryOfEachType\<rparr>, afterLoad w)
          else
            (\<lparr>data = (loaded w)\<lparr>categories :=
                        filter (\<lambda>cat. c_id cat \<noteq> ident) (categories (loaded w))\<rparr>,
              error = None\<rparr>,
             saveData ((loaded w)\<lparr>categories :=
                        filter (\<lambda>cat. c_id cat \<noteq> ident) (categories (loaded w))\<rparr>)
               (afterLoad w)))"
  by (simp add: deleteCategory_def Let_def split_beta split: option.splits)

lemma addEntry_eq:
  "addEntry input w =
     (if \<not> list_ex (\<lambda>cat. c_id cat = i_categoryId input) (categories (loaded w))
      then (loaded w, afterLoad w)
      else
        ((loaded w)\<lparr>entries :=
            \<lparr>e_id = fst (createId (asc ''entry'') (afterLoad w)),
             e_type = i_type input, e_categoryId = i_categoryId input,
             e_amount = i_amount input, e_date = i_date input,
             e_note = Some (JStr (case i_note input of None \<Rightarrow> [] | Some s \<Rightarrow> s)),
 e_rest = []\<rparr>
            # entries (loaded w)\<rparr>,
         saveData ((loaded w)\<lparr>entries :=
            \<lparr>e_id = fst (createId (asc ''entry'') (afterLoad w)),
             e_type = i_type input, e_categoryId = i_categoryId input,
             e_amount = i_amount input, e_date = i_date input,
             e_note = Some (JStr (case i_note input of None \<Rightarrow> [] | Some s \<Rightarrow> s)),
 e_rest = []\<rparr>
            # entries (loaded w)\<rparr>) (snd (createId (asc ''entry'') (afterLoad w)))))"
  by (simp add: addEntry_def Let_def split_beta)

lemma updateEntry_eq:
  "updateEntry ident input w =
     (case List.find (\<lambda>item. e_id item = ident) (entries (loaded w)) of
        None \<Rightarrow> (\<lparr>data = loaded w, error = Some EntryNotFound\<rparr>, afterLoad w)
      | Some entry \<Rightarrow>
          if \<not> list_ex (\<lambda>cat. c_id cat = i_categoryId input) (categories (loaded w))
          then (\<lparr>data = loaded w, error = Some CategoryNotFound\<rparr>, afterLoad w)
          else if \<not> isFinite (i_amount input) \<or> leZero (i_amount input)
          then (\<lparr>data = loaded w, error = Some EnterAmountAboveZero\<rparr>, afterLoad w)
          else
            (\<lparr>data = (loaded w)\<lparr>entries :=
                 mutateFirst (\<lambda>item. e_id item = ident)
                   (\<lambda>item. item\<lparr>e_type := i_type input,
                                 e_categoryId := i_categoryId input,
                                 e_amount := i_amount input,
                                 e_date := i_date input,
                                 e_note := Some (JStr (case i_note input of
                                                         None \<Rightarrow> [] | Some s \<Rightarrow> s))\<rparr>)
                   (entries (loaded w))\<rparr>,
              error = None\<rparr>,
             saveData ((loaded w)\<lparr>entries :=
                 mutateFirst (\<lambda>item. e_id item = ident)
                   (\<lambda>item. item\<lparr>e_type := i_type input,
                                 e_categoryId := i_categoryId input,
                                 e_amount := i_amount input,
                                 e_date := i_date input,
                                 e_note := Some (JStr (case i_note input of
                                                         None \<Rightarrow> [] | Some s \<Rightarrow> s))\<rparr>)
                   (entries (loaded w))\<rparr>) (afterLoad w)))"
  by (simp add: updateEntry_def Let_def split_beta split: option.splits)

lemma addCategory_eq:
  "addCategory name type w =
     (if trim name = [] then (loaded w, afterLoad w)
      else
        ((loaded w)\<lparr>categories := categories (loaded w) @
            [\<lparr>c_id = fst (createId (asc ''cat'') (afterLoad w)), c_name = trim name,
              c_type = type, c_rest = []\<rparr>]\<rparr>,
         saveData ((loaded w)\<lparr>categories := categories (loaded w) @
            [\<lparr>c_id = fst (createId (asc ''cat'') (afterLoad w)), c_name = trim name,
              c_type = type, c_rest = []\<rparr>]\<rparr>) (snd (createId (asc ''cat'') (afterLoad w)))))"
  by (simp add: addCategory_def Let_def split_beta)

lemma deleteEntry_eq:
  "deleteEntry ident w =
     ((loaded w)\<lparr>entries := filter (\<lambda>entry. e_id entry \<noteq> ident) (entries (loaded w))\<rparr>,
      saveData ((loaded w)\<lparr>entries := filter (\<lambda>entry. e_id entry \<noteq> ident) (entries (loaded w))\<rparr>)
        (afterLoad w))"
  by (simp add: deleteEntry_def Let_def split_beta)

subsection \<open>The example worlds, loaded\<close>

lemma load_sampleWorld: "loadFinanceData sampleWorld = (sampleDoc, sampleWorld)"
  by (simp add: sampleWorld_def sampleDoc_def load_Parsed normalizeData_def jsonOf_def
        categoryJson_def entryJson_def arrayProp_def isCategoryItem_def isEntryItem_def
        isTypeName_def typeName_def asCategory_def asEntry_def typeOf_def hasType_def
        categoryKeys_def entryKeys_def saveData_def Let_def)

lemma sampleWorld_sel:
  "drawn sampleWorld = 0" "uuids sampleWorld n = replicate (Suc n) 0x61"
  by (simp_all add: sampleWorld_def)

lemma load_duplicateIdWorld:
  "loaded duplicateIdWorld =
     \<lparr>categories =
        [\<lparr>c_id = asc ''a'', c_name = asc ''Pay'', c_type = Income, c_rest = []\<rparr>,
         \<lparr>c_id = asc ''a'', c_name = asc ''Gifts'', c_type = Income, c_rest = []\<rparr>,
         \<lparr>c_id = asc ''b'', c_name = asc ''Food'', c_type = Expense, c_rest = []\<rparr>],
      entries = []\<rparr>"
  by (simp add: duplicateIdWorld_def duplicateIdDoc_def load_Parsed normalizeData_def
        arrayProp_def isCategoryItem_def isTypeName_def asCategory_def typeOf_def
        categoryKeys_def hasType_def Let_def)

lemma load_danglingWorld:
  "loaded danglingWorld =
     \<lparr>categories =
        [\<lparr>c_id = asc ''cat_a'', c_name = nameSalary, c_type = Income, c_rest = []\<rparr>,
         \<lparr>c_id = asc ''cat_aa'', c_name = nameFood, c_type = Expense, c_rest = []\<rparr>],
      entries =
        [\<lparr>e_id = asc ''e9'', e_type = Income, e_categoryId = asc ''gone'',
          e_amount = Fin (- 5), e_date = asc ''someday'', e_note = None, e_rest = []\<rparr>]\<rparr>"
  by (simp add: danglingWorld_def danglingDoc_def load_Parsed normalizeData_def
        arrayProp_def isEntryItem_def isTypeName_def asEntry_def typeOf_def
        entryKeys_def hasType_def Let_def buildDefaultCategories_eq)
     (simp add: asc_def)

subsection \<open>Categories\<close>

text \<open>What a type change that would empty a type looks like.\<close>

lemma update_would_empty:
  assumes has: "hasType t cs"
    and none: "\<not> hasType t (mutateFirst (\<lambda>cat. c_id cat = ident)
                 (\<lambda>cat. cat\<lparr>c_name := n, c_type := ty\<rparr>) cs)"
  shows "\<exists>c. List.find (\<lambda>cat. c_id cat = ident) cs = Some c \<and> c_type c \<noteq> ty \<and>
             length (filter (\<lambda>cat. c_type cat = c_type c) cs) \<le> 1"
proof (cases "List.find (\<lambda>cat. c_id cat = ident) cs")
  case None
  then have "\<forall>x \<in> set cs. c_id x \<noteq> ident" by (simp add: find_None_iff)
  then have "mutateFirst (\<lambda>cat. c_id cat = ident) (\<lambda>cat. cat\<lparr>c_name := n, c_type := ty\<rparr>) cs = cs"
    by (rule mutateFirst_no_match)
  with has none show ?thesis by simp
next
  case (Some c)
  from find_split [OF Some] obtain pre post where
    split: "cs = pre @ c # post" "c_id c = ident" "\<forall>y \<in> set pre. c_id y \<noteq> ident"
    by blast
  then have "mutateFirst (\<lambda>cat. c_id cat = ident) (\<lambda>cat. cat\<lparr>c_name := n, c_type := ty\<rparr>) cs
             = pre @ c\<lparr>c_name := n, c_type := ty\<rparr> # post"
    by (simp add: mutateFirst_split)
  with none have parts: "\<not> hasType t pre" "ty \<noteq> t" "\<not> hasType t post" by auto
  with has split(1) have ct: "c_type c = t" by auto
  have "filter (\<lambda>cat. c_type cat = t) cs = [c]"
    using parts ct split(1) by (simp add: hasType_filter_empty)
  with Some ct parts show ?thesis by auto
qed

lemma delete_would_empty:
  assumes has: "hasType t cs"
    and dist: "distinct (map c_id cs)"
    and none: "\<not> hasType t (filter (\<lambda>cat. c_id cat \<noteq> ident) cs)"
  shows "\<exists>c. List.find (\<lambda>cat. c_id cat = ident) cs = Some c \<and>
             length (filter (\<lambda>cat. c_type cat = c_type c) cs) \<le> 1"
proof -
  from has obtain x where x: "x \<in> set cs" "c_type x = t" by (auto simp: hasType_iff)
  have all: "\<And>y. y \<in> set cs \<Longrightarrow> c_type y = t \<Longrightarrow> c_id y = ident"
    using none by (auto simp: hasType_iff)
  with x have "c_id x = ident" by blast
  with x obtain c where c: "List.find (\<lambda>cat. c_id cat = ident) cs = Some c"
    by (cases "List.find (\<lambda>cat. c_id cat = ident) cs") (auto simp: find_None_iff)
  from find_Some_mem [OF this] have cmem: "c \<in> set cs" "c_id c = ident" by simp_all
  have inj: "inj_on c_id (set cs)" using dist by (simp add: distinct_map)
  have same: "\<And>y. y \<in> set cs \<Longrightarrow> c_type y = t \<Longrightarrow> y = c"
    using all cmem inj by (auto dest: inj_onD)
  with x have ct: "c_type c = t" by blast
  have dcs: "distinct (filter (\<lambda>cat. c_type cat = t) cs)"
    using dist by (simp add: distinct_map)
  have "set (filter (\<lambda>cat. c_type cat = t) cs) \<subseteq> {c}" using same by auto
  then have "card (set (filter (\<lambda>cat. c_type cat = t) cs)) \<le> card {c}"
    by (intro card_mono) simp_all
  with distinct_card [OF dcs] have "length (filter (\<lambda>cat. c_type cat = t) cs) \<le> 1"
    by simp
  with c ct show ?thesis by simp
qed

text \<open>
  C2 (amended). \<open>updateCategory\<close> never returns a document in which a type has no
  category, and a type change that would leave a type without members is answered with
  an error and the loaded document, persisted unchanged. When the ids of the loaded
  categories are pairwise distinct, \<open>deleteCategory\<close> never returns a document in
  which a type has no category either, and a deletion that would leave a type without
  members is answered with an error and the loaded document, persisted unchanged.
\<close>

theorem category_mutations_keep_each_type:
  "let d = fst (loadFinanceData w);
       ru = fst (updateCategory ident name type w);
       wu = snd (updateCategory ident name type w);
       rd = fst (deleteCategory ident w);
       wd = snd (deleteCategory ident w);
       changed = mutateFirst (\<lambda>cat. c_id cat = ident)
                   (\<lambda>cat. cat\<lparr>c_name := trim name, c_type := type\<rparr>) (categories d);
       removed = filter (\<lambda>cat. c_id cat \<noteq> ident) (categories d)
   in (\<forall>t. hasType t (categories (data ru)))
    \<and> ((\<exists>t. \<not> hasType t changed) \<longrightarrow>
          error ru \<noteq> None \<and> data ru = d \<and> store wu = Parsed (jsonOf d))
    \<and> (distinct (map c_id (categories d)) \<longrightarrow>
          (\<forall>t. hasType t (categories (data rd))) \<and>
          ((\<exists>t. \<not> hasType t removed) \<longrightarrow>
             error rd \<noteq> None \<and> data rd = d \<and> store wd = Parsed (jsonOf d)))"
proof -
  let ?d = "loaded w"
  let ?changed = "mutateFirst (\<lambda>cat. c_id cat = ident)
                   (\<lambda>cat. cat\<lparr>c_name := trim name, c_type := type\<rparr>) (categories ?d)"
  let ?removed = "filter (\<lambda>cat. c_id cat \<noteq> ident) (categories ?d)"
  let ?ru = "fst (updateCategory ident name type w)"
  let ?rd = "fst (deleteCategory ident w)"
  have u2: "error ?ru \<noteq> None \<and> data ?ru = ?d \<and>
            store (snd (updateCategory ident name type w)) = Parsed (jsonOf ?d)"
    if "\<not> hasType t ?changed" for t
  proof -
    from update_would_empty [OF load_hasType that] obtain c where
      "List.find (\<lambda>cat. c_id cat = ident) (categories ?d) = Some c" "c_type c \<noteq> type"
      "length (filter (\<lambda>cat. c_type cat = c_type c) (categories ?d)) \<le> 1"
      by blast
    then show ?thesis by (simp add: updateCategory_eq load_store)
  qed
  have u1: "hasType t (categories (data ?ru))" for t
  proof (cases "hasType t ?changed")
    case True
    then show ?thesis
      using load_hasType [of t w]
      by (simp add: updateCategory_eq split: option.splits)
  next
    case False
    from u2 [OF this] show ?thesis by (simp add: load_hasType)
  qed
  have d2: "error ?rd \<noteq> None \<and> data ?rd = ?d \<and>
            store (snd (deleteCategory ident w)) = Parsed (jsonOf ?d)"
    if "distinct (map c_id (categories ?d))" "\<not> hasType t ?removed" for t
  proof -
    from delete_would_empty [OF load_hasType that] obtain c where
      "List.find (\<lambda>cat. c_id cat = ident) (categories ?d) = Some c"
      "length (filter (\<lambda>cat. c_type cat = c_type c) (categories ?d)) \<le> 1"
      by blast
    then show ?thesis by (simp add: deleteCategory_eq load_store)
  qed
  have d1: "hasType t (categories (data ?rd))"
    if dist: "distinct (map c_id (categories ?d))" for t
  proof (cases "hasType t ?removed")
    case True
    then show ?thesis
      using load_hasType [of t w]
      by (simp add: deleteCategory_eq split: option.splits)
  next
    case False
    from d2 [OF dist this] show ?thesis by (simp add: load_hasType)
  qed
  from u1 u2 d1 d2 show ?thesis
    unfolding Let_def by blast
qed

theorem category_mutations_keep_each_type_witness:
  "distinct (map c_id (categories (loaded sampleWorld))) \<and>
   error (fst (deleteCategory (asc ''c2'') sampleWorld)) \<noteq> None \<and>
   data (fst (deleteCategory (asc ''c2'') sampleWorld)) = sampleDoc \<and>
   error (fst (updateCategory (asc ''c2'') (asc ''Food'') Income sampleWorld)) \<noteq> None \<and>
   data (fst (updateCategory (asc ''c2'') (asc ''Food'') Income sampleWorld)) = sampleDoc"
proof -
  have dist: "distinct (map c_id (categories (loaded sampleWorld)))"
    by (simp add: load_sampleWorld sampleDoc_def)
  have del: "\<exists>t. \<not> hasType t (filter (\<lambda>cat. c_id cat \<noteq> asc ''c2'')
                                   (categories (loaded sampleWorld)))"
    by (rule exI [of _ Expense]) (simp add: load_sampleWorld sampleDoc_def)
  have upd: "\<exists>t. \<not> hasType t (mutateFirst (\<lambda>cat. c_id cat = asc ''c2'')
                (\<lambda>cat. cat\<lparr>c_name := trim (asc ''Food''), c_type := Income\<rparr>)
                (categories (loaded sampleWorld)))"
    by (rule exI [of _ Expense]) (simp add: load_sampleWorld sampleDoc_def)
  from category_mutations_keep_each_type [of sampleWorld "asc ''c2''" "asc ''Food''" Income]
    dist del upd
  show ?thesis
    unfolding Let_def by (simp add: load_sampleWorld)
qed

text \<open>
  With two categories under one id, \<open>deleteCategory\<close> removes both: the count of
  their type is 2, the guard lets the deletion pass, and no income category is left.
\<close>

theorem deleteCategory_duplicate_ids:
  "hasType Income (categories (loaded duplicateIdWorld)) \<and>
   error (fst (deleteCategory (asc ''a'') duplicateIdWorld)) = None \<and>
   categories (data (fst (deleteCategory (asc ''a'') duplicateIdWorld))) =
     [\<lparr>c_id = asc ''b'', c_name = asc ''Food'', c_type = Expense, c_rest = []\<rparr>] \<and>
   \<not> hasType Income (categories (data (fst (deleteCategory (asc ''a'') duplicateIdWorld))))"
  by (simp add: deleteCategory_eq load_duplicateIdWorld hasType_def)

text \<open>
  C6. \<open>updateCategory\<close> returns a validation error, with the loaded document
  returned and persisted unchanged, exactly when the name trims to empty
  (\<open>EnterCategoryName\<close>), or the id matches no category (\<open>CategoryNotFound\<close>), or
  the type differs from the current type of the category found and that type has one
  member only (\<open>NeedCategoryOfEachType\<close>). The empty name is reported even when the
  id is unknown. On success there is no error, the first category with that id carries
  the trimmed name and the given type and keeps its other properties, every other
  category and every entry stays, and the result is persisted.
\<close>

theorem updateCategory_validation:
  "let d = fst (loadFinanceData w);
       r = fst (updateCategory ident name type w);
       w' = snd (updateCategory ident name type w);
       lastOfType =
         (case List.find (\<lambda>cat. c_id cat = ident) (categories d) of
            None \<Rightarrow> False
          | Some c \<Rightarrow> c_type c \<noteq> type \<and>
                      length (filter (\<lambda>cat. c_type cat = c_type c) (categories d)) = 1)
   in (error r \<noteq> None \<longleftrightarrow>
         trim name = [] \<or> ident \<notin> c_id ` set (categories d) \<or> lastOfType)
    \<and> (error r \<noteq> None \<longrightarrow> data r = d \<and> store w' = Parsed (jsonOf d))
    \<and> (trim name = [] \<longrightarrow> error r = Some EnterCategoryName)
    \<and> (trim name \<noteq> [] \<and> ident \<notin> c_id ` set (categories d) \<longrightarrow>
          error r = Some CategoryNotFound)
    \<and> (trim name \<noteq> [] \<and> lastOfType \<longrightarrow> error r = Some NeedCategoryOfEachType)
    \<and> (error r = None \<longrightarrow>
          (\<exists>pre c post.
              categories d = pre @ c # post \<and> c_id c = ident \<and>
              (\<forall>x \<in> set pre. c_id x \<noteq> ident) \<and>
              categories (data r) =
                pre @ \<lparr>c_id = ident, c_name = trim name, c_type = type,
                       c_rest = c_rest c\<rparr> # post) \<and>
          entries (data r) = entries d \<and>
          store w' = Parsed (jsonOf (data r)))"
proof (cases "trim name = []")
  case True
  then show ?thesis
    by (simp add: updateCategory_eq load_store Let_def)
next
  case named: False
  show ?thesis
  proof (cases "List.find (\<lambda>cat. c_id cat = ident) (categories (loaded w))")
    case None
    then have "ident \<notin> c_id ` set (categories (loaded w))"
      by (simp add: find_None_iff_ids)
    with named None show ?thesis
      by (simp add: updateCategory_eq load_store Let_def)
  next
    case (Some c)
    then have mem: "ident \<in> c_id ` set (categories (loaded w))"
      using find_None_iff_ids [of c_id ident "categories (loaded w)"] by simp
    from find_split [OF Some] obtain pre post where
      split: "categories (loaded w) = pre @ c # post" "c_id c = ident"
             "\<forall>y \<in> set pre. c_id y \<noteq> ident"
      by blast
    have cnt: "0 < length (filter (\<lambda>x. c_type x = c_type c) (categories (loaded w)))"
      using Some by (rule find_same_type_count)
    have mut: "mutateFirst (\<lambda>cat. c_id cat = ident)
                 (\<lambda>cat. cat\<lparr>c_name := trim name, c_type := type\<rparr>) (categories (loaded w))
               = pre @ \<lparr>c_id = ident, c_name = trim name, c_type = type, c_rest = c_rest c\<rparr> # post"
      using split by (simp add: mutateFirst_split)
    have ex: "\<exists>pre' c' post'.
            categories (loaded w) = pre' @ c' # post' \<and> c_id c' = ident \<and>
            (\<forall>x \<in> set pre'. c_id x \<noteq> ident) \<and>
            pre @ \<lparr>c_id = ident, c_name = trim name, c_type = type, c_rest = c_rest c\<rparr> # post =
              pre' @ \<lparr>c_id = ident, c_name = trim name, c_type = type, c_rest = c_rest c'\<rparr> # post'"
      using split by blast
    consider
        (same) "c_type c = type"
      | (last) "c_type c \<noteq> type"
               "length (filter (\<lambda>cat. c_type cat = c_type c) (categories (loaded w))) = 1"
      | (more) "c_type c \<noteq> type"
               "1 < length (filter (\<lambda>cat. c_type cat = c_type c) (categories (loaded w)))"
      using cnt by linarith
    then show ?thesis
    proof cases
      case same
      with named Some mem ex show ?thesis
        by (simp add: updateCategory_eq saveData_def Let_def mut)
    next
      case last
      with named Some mem show ?thesis
        by (simp add: updateCategory_eq load_store Let_def)
    next
      case more
      with named Some mem ex show ?thesis
        by (simp add: updateCategory_eq saveData_def Let_def mut)
    qed
  qed
qed

theorem updateCategory_validation_witness:
  "fst (updateCategory (asc ''c2'') (asc '' Meals  '') Expense sampleWorld) =
     \<lparr>data = sampleDoc\<lparr>categories :=
         [\<lparr>c_id = asc ''c1'', c_name = asc ''Pay'', c_type = Income, c_rest = []\<rparr>,
          \<lparr>c_id = asc ''c2'', c_name = asc ''Meals'', c_type = Expense, c_rest = []\<rparr>,
          \<lparr>c_id = asc ''c3'', c_name = asc ''Gifts'', c_type = Income, c_rest = []\<rparr>]\<rparr>,
      error = None\<rparr>
   \<and> fst (updateCategory (asc ''c2'') (asc ''Meals'') Income sampleWorld) =
       \<lparr>data = sampleDoc, error = Some NeedCategoryOfEachType\<rparr>
   \<and> fst (updateCategory (asc ''zz'') (asc ''  '') Income sampleWorld) =
       \<lparr>data = sampleDoc, error = Some EnterCategoryName\<rparr>
   \<and> fst (updateCategory (asc ''zz'') (asc ''Meals'') Income sampleWorld) =
       \<lparr>data = sampleDoc, error = Some CategoryNotFound\<rparr>"
  using updateCategory_validation [of sampleWorld "asc ''c2''" "asc '' Meals  ''" Expense]
        updateCategory_validation [of sampleWorld "asc ''c2''" "asc ''Meals''" Income]
        updateCategory_validation [of sampleWorld "asc ''zz''" "asc ''  ''" Income]
        updateCategory_validation [of sampleWorld "asc ''zz''" "asc ''Meals''" Income]
  by (simp add: updateCategory_eq load_sampleWorld sampleDoc_def trim_def isWhiteSpace_def asc_def)

text \<open>
  C9. A successful \<open>updateCategory\<close> leaves the entries as they were loaded: an entry
  of the changed category keeps its stored type and categoryId. The witness changes the
  type of category c1 from income to expense while its entry e1 stays an income entry.
\<close>

theorem updateCategory_keeps_entries:
  "error (fst (updateCategory ident name type w)) = None \<Longrightarrow>
   entries (data (fst (updateCategory ident name type w))) = entries (fst (loadFinanceData w))"
  by (simp add: updateCategory_eq split: option.splits if_splits)

theorem updateCategory_keeps_entries_witness:
  "error (fst (updateCategory (asc ''c1'') (asc ''Pay'') Expense sampleWorld)) = None \<and>
   entries (data (fst (updateCategory (asc ''c1'') (asc ''Pay'') Expense sampleWorld))) =
     [\<lparr>e_id = asc ''e1'', e_type = Income, e_categoryId = asc ''c1'',
       e_amount = Fin 1000, e_date = asc ''2024-01-05'', e_note = Some (JStr []), e_rest = []\<rparr>] \<and>
   categories (data (fst (updateCategory (asc ''c1'') (asc ''Pay'') Expense sampleWorld))) =
     [\<lparr>c_id = asc ''c1'', c_name = asc ''Pay'', c_type = Expense, c_rest = []\<rparr>,
      \<lparr>c_id = asc ''c2'', c_name = asc ''Food'', c_type = Expense, c_rest = []\<rparr>,
      \<lparr>c_id = asc ''c3'', c_name = asc ''Gifts'', c_type = Income, c_rest = []\<rparr>]"
proof -
  have ok: "error (fst (updateCategory (asc ''c1'') (asc ''Pay'') Expense sampleWorld)) = None"
    by (simp add: updateCategory_eq load_sampleWorld sampleDoc_def trim_def isWhiteSpace_def asc_def)
  from updateCategory_keeps_entries [OF ok] ok show ?thesis
    by (simp add: updateCategory_eq load_sampleWorld sampleDoc_def trim_def isWhiteSpace_def asc_def)
qed

text \<open>
  C4. When some entry of the loaded document refers to the id, \<open>deleteCategory\<close>
  returns an error and the loaded document, and the persisted document is that document:
  categories and entries are as before. The error is \<open>CategoryInUse\<close> when the id is
  the id of a category (and \<open>CategoryNotFound\<close> when only entries carry it).
\<close>

theorem deleteCategory_in_use:
  "list_ex (\<lambda>entry. e_categoryId entry = ident) (entries (fst (loadFinanceData w))) \<Longrightarrow>
   data (fst (deleteCategory ident w)) = fst (loadFinanceData w) \<and>
   store (snd (deleteCategory ident w)) = Parsed (jsonOf (fst (loadFinanceData w))) \<and>
   error (fst (deleteCategory ident w)) =
     Some (if ident \<in> c_id ` set (categories (fst (loadFinanceData w)))
           then CategoryInUse else CategoryNotFound)"
  by (auto simp: deleteCategory_eq load_store find_None_iff_ids image_iff
           split: option.splits dest: find_split)

theorem deleteCategory_in_use_witness:
  "error (fst (deleteCategory (asc ''c1'') sampleWorld)) = Some CategoryInUse \<and>
   data (fst (deleteCategory (asc ''c1'') sampleWorld)) = sampleDoc"
  using deleteCategory_in_use [of "asc ''c1''" sampleWorld]
  by (simp add: load_sampleWorld) (simp add: sampleDoc_def)

subsection \<open>Entries\<close>

text \<open>
  C5. \<open>addEntry\<close> returns what \<open>loadFinanceData\<close> returns, and signals nothing, when
  the input's categoryId is the id of no category. Otherwise the document returned is the
  loaded one with a new entry in front of the loaded entries, which keep their order; the
  new entry has the id \<open>entry_\<close> followed by the next generated UUID, the input's
  fields, and the note of the input or the empty string when the input has none; the
  result is persisted.
\<close>

theorem addEntry_prepends:
  "(i_categoryId input \<notin> c_id ` set (categories (fst (loadFinanceData w))) \<longrightarrow>
      addEntry input w = loadFinanceData w) \<and>
   (i_categoryId input \<in> c_id ` set (categories (fst (loadFinanceData w))) \<longrightarrow>
      fst (addEntry input w) =
        (fst (loadFinanceData w))\<lparr>entries :=
           \<lparr>e_id = asc ''entry_'' @ uuids (snd (loadFinanceData w)) (drawn (snd (loadFinanceData w))),
            e_type = i_type input,
            e_categoryId = i_categoryId input,
            e_amount = i_amount input,
            e_date = i_date input,
            e_note = Some (JStr (case i_note input of None \<Rightarrow> [] | Some s \<Rightarrow> s)),
 e_rest = []\<rparr>
           # entries (fst (loadFinanceData w))\<rparr> \<and>
      store (snd (addEntry input w)) = Parsed (jsonOf (fst (addEntry input w))) \<and>
      drawn (snd (addEntry input w)) = Suc (drawn (snd (loadFinanceData w))))"
proof (cases "i_categoryId input \<in> c_id ` set (categories (fst (loadFinanceData w)))")
  case True
  then have "list_ex (\<lambda>cat. c_id cat = i_categoryId input) (categories (loaded w))"
    by (auto simp: list_ex_iff)
  with True show ?thesis
    by (simp add: addEntry_eq createId_def randomUUID_def saveData_def asc_def)
next
  case False
  then have "\<not> list_ex (\<lambda>cat. c_id cat = i_categoryId input) (categories (loaded w))"
    by (simp add: list_ex_iff image_iff) metis
  with False show ?thesis
    by (simp add: addEntry_eq)
qed

theorem addEntry_prepends_witness:
  "entries (fst (addEntry sampleInput sampleWorld)) =
     \<lparr>e_id = asc ''entry_a'', e_type = Expense, e_categoryId = asc ''c2'',
      e_amount = Fin 250, e_date = asc ''2023-12-31'', e_note = Some (JStr []), e_rest = []\<rparr>
     # entries sampleDoc
   \<and> addEntry (sampleInput\<lparr>i_categoryId := asc ''nope''\<rparr>) sampleWorld = (sampleDoc, sampleWorld)"
  using addEntry_prepends [of sampleInput sampleWorld]
        addEntry_prepends [of "sampleInput\<lparr>i_categoryId := asc ''nope''\<rparr>" sampleWorld]
  by (simp add: load_sampleWorld sampleDoc_def sampleInput_def sampleWorld_sel asc_def)

text \<open>
  C3 (amended). \<open>updateEntry\<close> answers an entry id that no entry has with
  \<open>EntryNotFound\<close>, otherwise a categoryId that no category has with
  \<open>CategoryNotFound\<close>, and only then an amount that is not finite or not above 0 with
  \<open>EnterAmountAboveZero\<close>; so such an amount always gives an error. With every error
  the loaded document is returned and persisted unchanged. With a finite amount above 0,
  \<open>updateEntry\<close> succeeds exactly when both ids resolve; on success the first entry
  with that id carries the input's fields, the amount as given, and keeps its other
  properties, the categories stay, and the result is persisted. \<open>addEntry\<close> with a
  finite amount above 0 and a categoryId that resolves stores the amount as given in the
  new first entry and persists the result.
\<close>

theorem entry_amount_validation:
  "let d = fst (loadFinanceData w);
       r = fst (updateEntry ident input w);
       w' = snd (updateEntry ident input w);
       entryFound = (ident \<in> e_id ` set (entries d));
       categoryFound = (i_categoryId input \<in> c_id ` set (categories d));
       badAmount = (\<not> isFinite (i_amount input) \<or> leZero (i_amount input))
   in (\<not> entryFound \<longrightarrow> error r = Some EntryNotFound)
    \<and> (entryFound \<and> \<not> categoryFound \<longrightarrow> error r = Some CategoryNotFound)
    \<and> (entryFound \<and> categoryFound \<and> badAmount \<longrightarrow> error r = Some EnterAmountAboveZero)
    \<and> (badAmount \<longrightarrow> error r \<noteq> None)
    \<and> (error r \<noteq> None \<longrightarrow> data r = d \<and> store w' = Parsed (jsonOf d))
    \<and> (\<not> badAmount \<longrightarrow> (error r = None \<longleftrightarrow> entryFound \<and> categoryFound))
    \<and> (error r = None \<longrightarrow>
          (\<exists>pre e post.
              entries d = pre @ e # post \<and> e_id e = ident \<and>
              (\<forall>x \<in> set pre. e_id x \<noteq> ident) \<and>
              entries (data r) =
                pre @ \<lparr>e_id = ident, e_type = i_type input,
                       e_categoryId = i_categoryId input, e_amount = i_amount input,
                       e_date = i_date input,
                       e_note = Some (JStr (case i_note input of
                                              None \<Rightarrow> [] | Some s \<Rightarrow> s)),
                       e_rest = e_rest e\<rparr> # post) \<and>
          categories (data r) = categories d \<and>
          store w' = Parsed (jsonOf (data r)))
    \<and> (\<not> badAmount \<and> categoryFound \<longrightarrow>
          (\<exists>e. entries (fst (addEntry input w)) = e # entries d \<and>
               e_amount e = i_amount input) \<and>
          store (snd (addEntry input w)) = Parsed (jsonOf (fst (addEntry input w))))"
proof (cases "List.find (\<lambda>item. e_id item = ident) (entries (loaded w))")
  case None
  then have "ident \<notin> e_id ` set (entries (loaded w))"
    by (simp add: find_None_iff_ids)
  with None show ?thesis
    by (simp add: updateEntry_eq addEntry_eq load_store saveData_def Let_def list_ex_image_iff)
next
  case (Some e)
  then have mem: "ident \<in> e_id ` set (entries (loaded w))"
    using find_None_iff_ids [of e_id ident "entries (loaded w)"] by simp
  from find_split [OF Some] obtain pre post where
    split: "entries (loaded w) = pre @ e # post" "e_id e = ident"
           "\<forall>y \<in> set pre. e_id y \<noteq> ident"
    by blast
  let ?new = "\<lambda>x. \<lparr>e_id = ident, e_type = i_type input,
               e_categoryId = i_categoryId input, e_amount = i_amount input,
               e_date = i_date input,
               e_note = Some (JStr (case i_note input of None \<Rightarrow> [] | Some s \<Rightarrow> s)),
               e_rest = e_rest x\<rparr>"
  have mut: "mutateFirst (\<lambda>item. e_id item = ident)
               (\<lambda>item. item\<lparr>e_type := i_type input,
                             e_categoryId := i_categoryId input,
                             e_amount := i_amount input,
                             e_date := i_date input,
                             e_note := Some (JStr (case i_note input of
                                                     None \<Rightarrow> [] | Some s \<Rightarrow> s))\<rparr>)
               (entries (loaded w))
             = pre @ ?new e # post"
    using split by (simp add: mutateFirst_split)
  have ex: "\<exists>pre' e' post'.
              entries (loaded w) = pre' @ e' # post' \<and> e_id e' = ident \<and>
              (\<forall>x \<in> set pre'. e_id x \<noteq> ident) \<and>
              pre @ ?new e # post = pre' @ ?new e' # post'"
    using split by blast
  from Some mem ex show ?thesis
    by (simp add: updateEntry_eq addEntry_eq load_store saveData_def Let_def
          list_ex_image_iff mut)
qed

theorem entry_amount_validation_witness:
  "fst (updateEntry (asc ''e1'') (sampleInput\<lparr>i_amount := NaN\<rparr>) sampleWorld) =
     \<lparr>data = sampleDoc, error = Some EnterAmountAboveZero\<rparr>
   \<and> fst (updateEntry (asc ''e1'') (sampleInput\<lparr>i_amount := Fin 0\<rparr>) sampleWorld) =
     \<lparr>data = sampleDoc, error = Some EnterAmountAboveZero\<rparr>
   \<and> fst (updateEntry (asc ''zz'') (sampleInput\<lparr>i_amount := Fin 0\<rparr>) sampleWorld) =
     \<lparr>data = sampleDoc, error = Some EntryNotFound\<rparr>
   \<and> fst (updateEntry (asc ''e1'')
            (sampleInput\<lparr>i_categoryId := asc ''nope'', i_amount := Fin 0\<rparr>) sampleWorld) =
     \<lparr>data = sampleDoc, error = Some CategoryNotFound\<rparr>
   \<and> map e_amount (entries (data (fst (updateEntry (asc ''e1'') sampleInput sampleWorld))))
       = [Fin 250]
   \<and> store (snd (updateEntry (asc ''e1'') sampleInput sampleWorld)) =
       Parsed (jsonOf (data (fst (updateEntry (asc ''e1'') sampleInput sampleWorld))))
   \<and> map e_amount (entries (fst (addEntry sampleInput sampleWorld))) = [Fin 250, Fin 1000]"
  using entry_amount_validation [of sampleWorld "asc ''e1''" "sampleInput\<lparr>i_amount := NaN\<rparr>"]
        entry_amount_validation [of sampleWorld "asc ''e1''" "sampleInput\<lparr>i_amount := Fin 0\<rparr>"]
        entry_amount_validation [of sampleWorld "asc ''zz''" "sampleInput\<lparr>i_amount := Fin 0\<rparr>"]
        entry_amount_validation [of sampleWorld "asc ''e1''"
          "sampleInput\<lparr>i_categoryId := asc ''nope'', i_amount := Fin 0\<rparr>"]
        entry_amount_validation [of sampleWorld "asc ''e1''" sampleInput]
  by (simp add: updateEntry_eq addEntry_eq load_sampleWorld sampleDoc_def sampleInput_def
        saveData_def)

text \<open>
  \<open>updateEntry\<close> reports an unknown categoryId or an unknown entry id before it looks
  at the amount. And \<open>addEntry\<close> does not look at the amount: a negative amount is
  stored.
\<close>

theorem entry_amount_counterexample:
  "error (fst (updateEntry (asc ''e1'')
                 (sampleInput\<lparr>i_categoryId := asc ''nope'', i_amount := Fin (- 5)\<rparr>)
                 sampleWorld))
     = Some CategoryNotFound
   \<and> error (fst (updateEntry (asc ''zz'') (sampleInput\<lparr>i_amount := Fin (- 5)\<rparr>) sampleWorld))
       = Some EntryNotFound
   \<and> entries (fst (addEntry (sampleInput\<lparr>i_amount := Fin (- 5)\<rparr>) sampleWorld)) =
     \<lparr>e_id = asc ''entry_a'', e_type = Expense, e_categoryId = asc ''c2'',
      e_amount = Fin (- 5), e_date = asc ''2023-12-31'', e_note = Some (JStr []),
      e_rest = []\<rparr>
     # entries sampleDoc
   \<and> fst (addEntry (sampleInput\<lparr>i_amount := Fin (- 5)\<rparr>) sampleWorld)
       \<noteq> fst (loadFinanceData sampleWorld)"
  by (simp add: updateEntry_eq addEntry_eq load_sampleWorld sampleDoc_def sampleInput_def
        createId_def randomUUID_def sampleWorld_sel asc_def)

subsection \<open>What normalisation lets through\<close>

text \<open>
  C10. \<open>normalizeData\<close> keeps an item of the entries array exactly when it is an
  object whose id, categoryId and date are strings, whose amount is a number and whose
  type is "income" or "expense". A note property makes no difference, and the entries
  returned by a load depend on the entries array alone, not on the categories. So a load
  can return an entry whose categoryId is the id of no category of the returned
  document, whose amount is not above 0 and that has no note: the stored document of
  \<open>danglingWorld\<close> is one.
\<close>

theorem load_keeps_unchecked_entries:
  "(isEntryItem item \<longleftrightarrow>
      (\<exists>kvs i c a d t.
          item = JObj kvs \<and>
          map_of kvs (asc ''id'') = Some (JStr i) \<and>
          map_of kvs (asc ''categoryId'') = Some (JStr c) \<and>
          map_of kvs (asc ''amount'') = Some (JNum a) \<and>
          map_of kvs (asc ''date'') = Some (JStr d) \<and>
          map_of kvs (asc ''type'') = Some (JStr (typeName t))))
   \<and> isEntryItem (JObj ((asc ''note'', v) # kvs')) = isEntryItem (JObj kvs')
   \<and> (store w = Parsed raw \<longrightarrow>
        entries (fst (loadFinanceData w)) =
          map asEntry (filter isEntryItem (arrayProp raw (asc ''entries''))))
   \<and> (\<exists>e \<in> set (entries (fst (loadFinanceData danglingWorld))).
          e_categoryId e \<notin> c_id ` set (categories (fst (loadFinanceData danglingWorld))) \<and>
          leZero (e_amount e) \<and> e_note e = None)"
proof (intro conjI)
  show "isEntryItem item \<longleftrightarrow>
      (\<exists>kvs i c a d t.
          item = JObj kvs \<and>
          map_of kvs (asc ''id'') = Some (JStr i) \<and>
          map_of kvs (asc ''categoryId'') = Some (JStr c) \<and>
          map_of kvs (asc ''amount'') = Some (JNum a) \<and>
          map_of kvs (asc ''date'') = Some (JStr d) \<and>
          map_of kvs (asc ''type'') = Some (JStr (typeName t)))"
  proof (cases item)
    case (JObj kvs)
    then show ?thesis
      by (simp add: isEntryItem_def isString_iff isNumber_iff isTypeName_iff)
  qed (simp_all add: isEntryItem_def)
  show "isEntryItem (JObj ((asc ''note'', v) # kvs')) = isEntryItem (JObj kvs')"
    by (simp add: isEntryItem_def)
  show "store w = Parsed raw \<longrightarrow>
        entries (fst (loadFinanceData w)) =
          map asEntry (filter isEntryItem (arrayProp raw (asc ''entries'')))"
    by (simp add: load_Parsed normalizeData_def Let_def split_beta)
  show "\<exists>e \<in> set (entries (fst (loadFinanceData danglingWorld))).
          e_categoryId e \<notin> c_id ` set (categories (fst (loadFinanceData danglingWorld))) \<and>
          leZero (e_amount e) \<and> e_note e = None"
    by (simp add: load_danglingWorld)
qed

theorem load_keeps_unchecked_entries_witness:
  "store danglingWorld = Parsed danglingDoc \<and>
   entries (fst (loadFinanceData danglingWorld)) =
     map asEntry (filter isEntryItem (arrayProp danglingDoc (asc ''entries'')))"
proof -
  have st: "store danglingWorld = Parsed danglingDoc"
    by (simp add: danglingWorld_def)
  from load_keeps_unchecked_entries [of JNull JNull "[]" danglingWorld danglingDoc] st
  show ?thesis by blast
qed

subsection \<open>Saving and loading again\<close>

lemma map_of_clean:
  "list_all (\<lambda>kv. fst kv \<notin> set ks) kvs \<Longrightarrow> k \<in> set ks \<Longrightarrow>
   map_of (map (map_prod id f) kvs) k = None"
  by (induction kvs) auto

lemma filter_clean_kept:
  "list_all (\<lambda>kv. fst kv \<notin> set ks) kvs \<Longrightarrow> propsKept kvs \<Longrightarrow>
   filter (\<lambda>kv. fst kv \<notin> set ks) (map (map_prod id reparse) kvs) = kvs"
  by (induction kvs) (auto simp: propsKept_def)

lemma numberJson_finite: "isNumber (Some (numberJson n)) = isFinite n"
  by (cases n) simp_all

lemma numberJson_kept: "numberKept n \<Longrightarrow> numberJson n = JNum n"
  by (cases n) (simp_all add: numberKept_def)

lemma isCategoryItem_categoryJson [simp]: "isCategoryItem (categoryJson c)"
  by (cases "c_type c")
     (simp_all add: isCategoryItem_def categoryJson_def isTypeName_def typeName_def)

lemma asCategory_categoryJson:
  assumes "categoryKept c" "cleanCategory c"
  shows "asCategory (categoryJson c) = c"
proof -
  have "filter (\<lambda>kv. fst kv \<notin> set categoryKeys) (map (map_prod id reparse) (c_rest c))
          = c_rest c"
    using assms by (simp add: filter_clean_kept categoryKept_def cleanCategory_def)
  then show ?thesis
    by (cases "c_type c")
       (simp_all add: asCategory_def categoryJson_def typeOf_def typeName_def categoryKeys_def)
qed

lemma isEntryItem_entryJson [simp]: "isEntryItem (entryJson e) = isFinite (e_amount e)"
  by (cases "e_type e")
     (simp_all add: isEntryItem_def entryJson_def isTypeName_def typeName_def
        numberJson_finite)

lemma asEntry_entryJson:
  assumes "entryKept e" "cleanEntry e"
  shows "asEntry (entryJson e) = e"
proof -
  have rest: "filter (\<lambda>kv. fst kv \<notin> set entryKeys) (map (map_prod id reparse) (e_rest e))
          = e_rest e"
    using assms by (simp add: filter_clean_kept entryKept_def cleanEntry_def)
  have nonote: "map_of (map (map_prod id reparse) (e_rest e)) (asc ''note'') = None"
    using assms(2) by (intro map_of_clean [of entryKeys]) (simp_all add: cleanEntry_def entryKeys_def)
  have amount: "numberJson (e_amount e) = JNum (e_amount e)"
    using assms(1) by (simp add: numberJson_kept entryKept_def)
  have nt: "case e_note e of None \<Rightarrow> True | Some v \<Rightarrow> reparse v = v"
    using assms(1) by (simp add: entryKept_def)
  show ?thesis
    using rest nonote amount nt
    by (cases "e_type e"; cases "e_note e")
       (simp_all add: asEntry_def entryJson_def typeOf_def typeName_def entryKeys_def
          map_add_def)
qed

lemma categories_back:
  "list_all (\<lambda>c. categoryKept c \<and> cleanCategory c) cs \<Longrightarrow>
   map asCategory (filter isCategoryItem (map categoryJson cs)) = cs"
  by (induction cs) (simp_all add: asCategory_categoryJson)

lemma entries_back:
  "list_all (\<lambda>e. entryKept e \<and> cleanEntry e) es \<Longrightarrow>
   map asEntry (filter isEntryItem (map entryJson es)) = es"
  by (induction es) (simp_all add: asEntry_entryJson, simp add: entryKept_def numberKept_def)

lemma list_all_conj: "list_all (\<lambda>x. p x \<and> q x) xs \<longleftrightarrow> list_all p xs \<and> list_all q xs"
  by (induction xs) auto

lemma normalizeData_jsonOf:
  assumes "hasType Income (categories d)" "hasType Expense (categories d)"
    and "documentKept d" "cleanDocument d"
  shows "normalizeData (jsonOf d) w = (d, w)"
proof -
  have c: "arrayProp (jsonOf d) (asc ''categories'') = map categoryJson (categories d)"
    by (simp add: arrayProp_def jsonOf_def)
  have e: "arrayProp (jsonOf d) (asc ''entries'') = map entryJson (entries d)"
    by (simp add: arrayProp_def jsonOf_def)
  have cb: "map asCategory (filter isCategoryItem (map categoryJson (categories d))) = categories d"
    using assms(3,4) by (intro categories_back) (simp add: list_all_conj documentKept_def cleanDocument_def)
  have eb: "map asEntry (filter isEntryItem (map entryJson (entries d))) = entries d"
    using assms(3,4) by (intro entries_back) (simp add: list_all_conj documentKept_def cleanDocument_def)
  show ?thesis
    unfolding normalizeData_def c e cb eb Let_def
    using assms(1,2) by simp
qed

lemma reload:
  assumes "store w = Parsed (jsonOf d)"
    and "\<And>t. hasType t (categories d)"
    and "documentKept d" "cleanDocument d"
  shows "loaded w = d"
  using assms by (simp add: load_Parsed normalizeData_jsonOf)

text \<open>Every loaded document is clean, and the mutations keep clean and kept documents so.\<close>

lemma cleanCategory_asCategory: "cleanCategory (asCategory item)"
  by (cases item) (simp_all add: cleanCategory_def asCategory_def list_all_iff)

lemma cleanEntry_asEntry: "cleanEntry (asEntry item)"
  by (cases item) (simp_all add: cleanEntry_def asEntry_def list_all_iff)

lemma cleanCategory_new: "c_rest c = [] \<Longrightarrow> cleanCategory c"
  by (simp add: cleanCategory_def)

lemma cleanDocument_normalizeData: "cleanDocument (fst (normalizeData raw w))"
  by (auto simp: normalizeData_def Let_def buildDefaultCategories_eq cleanDocument_def
        list_all_iff cleanCategory_asCategory cleanEntry_asEntry cleanCategory_new
        split: prod.splits)

lemma cleanDocument_loaded: "cleanDocument (loaded w)"
proof (cases "store w")
  case (Parsed raw)
  then show ?thesis by (simp add: load_Parsed cleanDocument_normalizeData)
next
  case Absent
  then show ?thesis
    by (simp add: load_Absent buildDefaultCategories_eq cleanDocument_def cleanCategory_def)
next
  case Unparseable
  then show ?thesis
    by (simp add: load_Absent buildDefaultCategories_eq cleanDocument_def cleanCategory_def)
qed

lemma list_all_mutateFirst:
  "list_all q xs \<Longrightarrow> (\<And>x. q x \<Longrightarrow> q (f x)) \<Longrightarrow> list_all q (mutateFirst p f xs)"
  by (induction xs) simp_all

lemma list_all_filter: "list_all q xs \<Longrightarrow> list_all q (filter p xs)"
  by (induction xs) simp_all

lemmas sound_defs =
  sound_def documentKept_def cleanDocument_def categoryKept_def cleanCategory_def
  entryKept_def cleanEntry_def propsKept_def

lemma sound_addCategory: "sound (loaded w) \<Longrightarrow> sound (fst (addCategory name type w))"
  by (simp add: addCategory_eq sound_defs)

lemma sound_updateCategory:
  "sound (loaded w) \<Longrightarrow> sound (data (fst (updateCategory ident name type w)))"
  by (auto simp: updateCategory_eq sound_defs split: option.splits
           intro!: list_all_mutateFirst)

lemma sound_deleteCategory:
  "sound (loaded w) \<Longrightarrow> sound (data (fst (deleteCategory ident w)))"
  by (auto simp: deleteCategory_eq sound_defs split: option.splits intro!: list_all_filter)

lemma sound_addEntry:
  "sound (loaded w) \<Longrightarrow> numberKept (i_amount input) \<Longrightarrow> sound (fst (addEntry input w))"
  by (simp add: addEntry_eq sound_defs)

lemma numberKept_valid: "isFinite n \<Longrightarrow> \<not> leZero n \<Longrightarrow> numberKept n"
  by (cases n) (simp_all add: numberKept_def)

lemma sound_updateEntry:
  "sound (loaded w) \<Longrightarrow> sound (data (fst (updateEntry ident input w)))"
  by (auto simp: updateEntry_eq sound_defs numberKept_valid split: option.splits
           intro!: list_all_mutateFirst)

lemma sound_deleteEntry: "sound (loaded w) \<Longrightarrow> sound (fst (deleteEntry ident w))"
  by (auto simp: deleteEntry_eq sound_defs intro!: list_all_filter)

lemma updateCategory_hasType: "hasType t (categories (data (fst (updateCategory ident name type w))))"
proof (cases "hasType t (mutateFirst (\<lambda>cat. c_id cat = ident)
                (\<lambda>cat. cat\<lparr>c_name := trim name, c_type := type\<rparr>) (categories (loaded w)))")
  case True
  then show ?thesis
    using load_hasType [of t w]
    by (simp add: updateCategory_eq split: option.splits)
next
  case False
  from update_would_empty [OF load_hasType False] obtain c where
    "List.find (\<lambda>cat. c_id cat = ident) (categories (loaded w)) = Some c" "c_type c \<noteq> type"
    "length (filter (\<lambda>cat. c_type cat = c_type c) (categories (loaded w))) \<le> 1"
    by blast
  then show ?thesis by (simp add: updateCategory_eq load_hasType)
qed

lemma deleteCategory_hasType:
  assumes "distinct (map c_id (categories (loaded w)))"
  shows "hasType t (categories (data (fst (deleteCategory ident w))))"
proof (cases "hasType t (filter (\<lambda>cat. c_id cat \<noteq> ident) (categories (loaded w)))")
  case True
  then show ?thesis
    using load_hasType [of t w]
    by (simp add: deleteCategory_eq split: option.splits)
next
  case False
  from delete_would_empty [OF load_hasType assms False] obtain c where
    "List.find (\<lambda>cat. c_id cat = ident) (categories (loaded w)) = Some c"
    "length (filter (\<lambda>cat. c_type cat = c_type c) (categories (loaded w))) \<le> 1"
    by blast
  then show ?thesis by (simp add: deleteCategory_eq load_hasType)
qed

lemma store_addCategory:
  "store (snd (addCategory name type w)) = Parsed (jsonOf (fst (addCategory name type w)))"
  by (simp add: addCategory_eq load_store saveData_def)

lemma store_updateCategory:
  "store (snd (updateCategory ident name type w)) =
     Parsed (jsonOf (data (fst (updateCategory ident name type w))))"
  by (simp add: updateCategory_eq load_store saveData_def split: option.splits)

lemma store_deleteCategory:
  "store (snd (deleteCategory ident w)) = Parsed (jsonOf (data (fst (deleteCategory ident w))))"
  by (simp add: deleteCategory_eq load_store saveData_def split: option.splits)

lemma store_addEntry:
  "store (snd (addEntry input w)) = Parsed (jsonOf (fst (addEntry input w)))"
  by (simp add: addEntry_eq load_store saveData_def)

lemma store_updateEntry:
  "store (snd (updateEntry ident input w)) =
     Parsed (jsonOf (data (fst (updateEntry ident input w))))"
  by (simp add: updateEntry_eq load_store saveData_def split: option.splits)

lemma store_deleteEntry:
  "store (snd (deleteEntry ident w)) = Parsed (jsonOf (fst (deleteEntry ident w)))"
  by (simp add: deleteEntry_eq saveData_def)

text \<open>
  C7 (amended). Let the loaded document hold only what JSON gives back unchanged: every
  amount finite and not -0, and no number that is not finite or is -0 inside a note or
  inside a property of a category or entry that the service does not declare. Then
  \<open>loadFinanceData\<close>, called right after \<open>addCategory\<close>, \<open>updateCategory\<close>,
  \<open>updateEntry\<close> or \<open>deleteEntry\<close>, returns the document that the mutation returned;
  so it does after \<open>deleteCategory\<close> when the ids of the loaded categories are pairwise
  distinct, and after \<open>addEntry\<close> when the amount of the input is finite and not -0.
\<close>

theorem load_after_mutation:
  assumes kept: "documentKept (fst (loadFinanceData w))"
  shows "fst (loadFinanceData (snd (addCategory name type w))) = fst (addCategory name type w)
    \<and> fst (loadFinanceData (snd (updateCategory ident name type w))) =
        data (fst (updateCategory ident name type w))
    \<and> (distinct (map c_id (categories (fst (loadFinanceData w)))) \<longrightarrow>
         fst (loadFinanceData (snd (deleteCategory ident w))) =
           data (fst (deleteCategory ident w)))
    \<and> (numberKept (i_amount input) \<longrightarrow>
         fst (loadFinanceData (snd (addEntry input w))) = fst (addEntry input w))
    \<and> fst (loadFinanceData (snd (updateEntry ident' input w))) =
        data (fst (updateEntry ident' input w))
    \<and> fst (loadFinanceData (snd (deleteEntry ident' w))) = fst (deleteEntry ident' w)"
proof (intro conjI impI)
  from kept have s: "sound (loaded w)"
    by (simp add: sound_def cleanDocument_loaded)
  show "loaded (snd (addCategory name type w)) = fst (addCategory name type w)"
  proof (rule reload [OF store_addCategory])
    show "hasType t (categories (fst (addCategory name type w)))" for t
      by (simp add: addCategory_eq load_hasType)
    from sound_addCategory [OF s]
    show "documentKept (fst (addCategory name type w))"
      and "cleanDocument (fst (addCategory name type w))"
      by (simp_all add: sound_def)
  qed
  show "loaded (snd (updateCategory ident name type w)) =
          data (fst (updateCategory ident name type w))"
  proof (rule reload [OF store_updateCategory])
    show "hasType t (categories (data (fst (updateCategory ident name type w))))" for t
      by (rule updateCategory_hasType)
    from sound_updateCategory [OF s]
    show "documentKept (data (fst (updateCategory ident name type w)))"
      and "cleanDocument (data (fst (updateCategory ident name type w)))"
      by (simp_all add: sound_def)
  qed
  show "loaded (snd (deleteCategory ident w)) = data (fst (deleteCategory ident w))"
    if "distinct (map c_id (categories (loaded w)))"
  proof (rule reload [OF store_deleteCategory])
    show "hasType t (categories (data (fst (deleteCategory ident w))))" for t
      using that by (rule deleteCategory_hasType)
    from sound_deleteCategory [OF s]
    show "documentKept (data (fst (deleteCategory ident w)))"
      and "cleanDocument (data (fst (deleteCategory ident w)))"
      by (simp_all add: sound_def)
  qed
  show "loaded (snd (addEntry input w)) = fst (addEntry input w)"
    if "numberKept (i_amount input)"
  proof (rule reload [OF store_addEntry])
    show "hasType t (categories (fst (addEntry input w)))" for t
      by (simp add: addEntry_eq load_hasType)
    from sound_addEntry [OF s that]
    show "documentKept (fst (addEntry input w))"
      and "cleanDocument (fst (addEntry input w))"
      by (simp_all add: sound_def)
  qed
  show "loaded (snd (updateEntry ident' input w)) = data (fst (updateEntry ident' input w))"
  proof (rule reload [OF store_updateEntry])
    show "hasType t (categories (data (fst (updateEntry ident' input w))))" for t
      by (simp add: updateEntry_eq load_hasType split: option.splits)
    from sound_updateEntry [OF s]
    show "documentKept (data (fst (updateEntry ident' input w)))"
      and "cleanDocument (data (fst (updateEntry ident' input w)))"
      by (simp_all add: sound_def)
  qed
  show "loaded (snd (deleteEntry ident' w)) = fst (deleteEntry ident' w)"
  proof (rule reload [OF store_deleteEntry])
    show "hasType t (categories (fst (deleteEntry ident' w)))" for t
      by (simp add: deleteEntry_eq load_hasType)
    from sound_deleteEntry [OF s]
    show "documentKept (fst (deleteEntry ident' w))"
      and "cleanDocument (fst (deleteEntry ident' w))"
      by (simp_all add: sound_def)
  qed
qed

theorem load_after_mutation_witness:
  "documentKept (fst (loadFinanceData sampleWorld)) \<and>
   distinct (map c_id (categories (fst (loadFinanceData sampleWorld)))) \<and>
   numberKept (i_amount sampleInput) \<and>
   error (fst (deleteCategory (asc ''c3'') sampleWorld)) = None \<and>
   fst (loadFinanceData (snd (deleteCategory (asc ''c3'') sampleWorld))) =
     data (fst (deleteCategory (asc ''c3'') sampleWorld)) \<and>
   fst (loadFinanceData (snd (addEntry sampleInput sampleWorld))) =
     fst (addEntry sampleInput sampleWorld)"
proof -
  have kept: "documentKept (fst (loadFinanceData sampleWorld))"
    by (simp add: load_sampleWorld sampleDoc_def documentKept_def categoryKept_def
          entryKept_def propsKept_def numberKept_def)
  have dist: "distinct (map c_id (categories (fst (loadFinanceData sampleWorld))))"
    by (simp add: load_sampleWorld sampleDoc_def)
  have fin: "numberKept (i_amount sampleInput)"
    by (simp add: sampleInput_def numberKept_def)
  have ok: "error (fst (deleteCategory (asc ''c3'') sampleWorld)) = None"
    by (simp add: deleteCategory_eq load_sampleWorld sampleDoc_def)
  from load_after_mutation [OF kept, of _ _ "asc ''c3''" sampleInput] kept dist fin ok
  show ?thesis by blast
qed

lemma load_oneEntryDoc:
  "loaded (storedWorld (oneEntryDoc n others)) =
     \<lparr>categories =
        [\<lparr>c_id = asc ''a'', c_name = asc ''Pay'', c_type = Income, c_rest = []\<rparr>,
         \<lparr>c_id = asc ''b'', c_name = asc ''Food'', c_type = Expense, c_rest = []\<rparr>],
      entries =
        [\<lparr>e_id = asc ''e1'', e_type = Income, e_categoryId = asc ''a'',
          e_amount = n, e_date = asc ''2024-01-05'',
          e_note = map_of others (asc ''note''),
          e_rest = filter (\<lambda>kv. fst kv \<notin> set entryKeys) others\<rparr>]\<rparr>"
  by (simp add: storedWorld_def oneEntryDoc_def load_Parsed normalizeData_def
        arrayProp_def isCategoryItem_def isEntryItem_def isTypeName_def asCategory_def
        asEntry_def typeOf_def categoryKeys_def hasType_def Let_def)
     (simp add: entryKeys_def)

lemma load_weightDoc:
  "loaded (storedWorld weightDoc) =
     \<lparr>categories =
        [\<lparr>c_id = asc ''a'', c_name = asc ''Pay'', c_type = Income,
          c_rest = [(asc ''weight'', JNum PosInf)]\<rparr>,
         \<lparr>c_id = asc ''b'', c_name = asc ''Food'', c_type = Expense, c_rest = []\<rparr>],
      entries = []\<rparr>"
  by (simp add: storedWorld_def weightDoc_def load_Parsed normalizeData_def
        arrayProp_def isCategoryItem_def isTypeName_def asCategory_def
        typeOf_def categoryKeys_def hasType_def Let_def)

lemma entries_reloaded:
  "store w = Parsed (jsonOf d) \<Longrightarrow>
   entries (loaded w) = map asEntry (filter isEntryItem (map entryJson (entries d)))"
  by (simp add: load_Parsed normalizeData_def jsonOf_def arrayProp_def Let_def split_beta)

lemma c_type_back: "c_type (asCategory (categoryJson c)) = c_type c"
  by (cases "c_type c") (simp_all add: asCategory_def categoryJson_def typeOf_def typeName_def)

lemma categories_reloaded:
  "store w = Parsed (jsonOf d) \<Longrightarrow> hasType Income (categories d) \<Longrightarrow>
   hasType Expense (categories d) \<Longrightarrow>
   map c_rest (categories (loaded w)) = map (c_rest \<circ> asCategory \<circ> categoryJson) (categories d)"
proof -
  assume st: "store w = Parsed (jsonOf d)"
    and ty: "hasType Income (categories d)" "hasType Expense (categories d)"
  have has: "hasType t (map (asCategory \<circ> categoryJson) cs) = hasType t cs" for t cs
    by (simp add: hasType_def list_ex_iff c_type_back)
  have c: "arrayProp (jsonOf d) (asc ''categories'') = map categoryJson (categories d)"
    by (simp add: arrayProp_def jsonOf_def)
  have f: "filter isCategoryItem (map categoryJson cs) = map categoryJson cs" for cs
    by (induction cs) simp_all
  show ?thesis
    using ty by (simp add: load_Parsed [OF st] normalizeData_def c f has Let_def)
qed

text \<open>
  After \<open>deleteCategory\<close> has removed both categories of a repeated id, the next load
  adds a default income category. A property \<open>weight\<close> of a category with the value
  +Infinity is in the document \<open>addCategory\<close> returns and is \<open>null\<close> after the next
  load. An entry with the amount +Infinity is returned by every mutation and dropped by
  the next load; an amount -0 comes back as 0; a note or another property of an entry
  with the value +Infinity comes back as \<open>null\<close>.
\<close>

theorem load_after_mutation_counterexample:
  "fst (loadFinanceData (snd (deleteCategory (asc ''a'') duplicateIdWorld)))
     \<noteq> data (fst (deleteCategory (asc ''a'') duplicateIdWorld))
   \<and> fst (loadFinanceData (snd (addCategory (asc ''Rent'') Expense (storedWorld weightDoc))))
     \<noteq> fst (addCategory (asc ''Rent'') Expense (storedWorld weightDoc))
   \<and> fst (loadFinanceData (snd (deleteEntry (asc ''zz'')
            (storedWorld (oneEntryDoc PosInf [])))))
     \<noteq> fst (deleteEntry (asc ''zz'') (storedWorld (oneEntryDoc PosInf [])))
   \<and> fst (loadFinanceData (snd (deleteEntry (asc ''zz'')
            (storedWorld (oneEntryDoc NegZero [])))))
     \<noteq> fst (deleteEntry (asc ''zz'') (storedWorld (oneEntryDoc NegZero [])))
   \<and> fst (loadFinanceData (snd (deleteEntry (asc ''zz'')
            (storedWorld (oneEntryDoc (Fin 5) [(asc ''note'', JNum PosInf)])))))
     \<noteq> fst (deleteEntry (asc ''zz'')
            (storedWorld (oneEntryDoc (Fin 5) [(asc ''note'', JNum PosInf)])))
   \<and> fst (loadFinanceData (snd (deleteEntry (asc ''zz'')
            (storedWorld (oneEntryDoc (Fin 5) [(asc ''tag'', JNum PosInf)])))))
     \<noteq> fst (deleteEntry (asc ''zz'')
            (storedWorld (oneEntryDoc (Fin 5) [(asc ''tag'', JNum PosInf)])))"
proof (intro conjI)
  have "length (categories (loaded (snd (deleteCategory (asc ''a'') duplicateIdWorld))))
          \<noteq> length (categories (data (fst (deleteCategory (asc ''a'') duplicateIdWorld))))"
  proof -
    have r: "categories (data (fst (deleteCategory (asc ''a'') duplicateIdWorld))) =
        [\<lparr>c_id = asc ''b'', c_name = asc ''Food'', c_type = Expense, c_rest = []\<rparr>]"
      by (simp add: deleteCategory_eq load_duplicateIdWorld)
    have "entries (data (fst (deleteCategory (asc ''a'') duplicateIdWorld))) = []"
      by (simp add: deleteCategory_eq load_duplicateIdWorld)
    with r have d: "data (fst (deleteCategory (asc ''a'') duplicateIdWorld)) =
        \<lparr>categories = [\<lparr>c_id = asc ''b'', c_name = asc ''Food'', c_type = Expense,
                         c_rest = []\<rparr>], entries = []\<rparr>"
      by (cases "data (fst (deleteCategory (asc ''a'') duplicateIdWorld))") simp
    have "length (categories (loaded (snd (deleteCategory (asc ''a'') duplicateIdWorld)))) = 2"
      using store_deleteCategory [of "asc ''a''" duplicateIdWorld]
      by (simp add: d load_Parsed normalizeData_def jsonOf_def arrayProp_def hasType_def
            c_type_back Let_def split_beta)
    with r show ?thesis by simp
  qed
  then show "loaded (snd (deleteCategory (asc ''a'') duplicateIdWorld))
          \<noteq> data (fst (deleteCategory (asc ''a'') duplicateIdWorld))"
    by auto
  have "map c_rest (categories (loaded (snd (addCategory (asc ''Rent'') Expense
            (storedWorld weightDoc)))))
      \<noteq> map c_rest (categories (fst (addCategory (asc ''Rent'') Expense
            (storedWorld weightDoc))))"
  proof -
    let ?W = "storedWorld weightDoc"
    have val: "fst (addCategory (asc ''Rent'') Expense ?W) =
        \<lparr>categories =
           [\<lparr>c_id = asc ''a'', c_name = asc ''Pay'', c_type = Income,
             c_rest = [(asc ''weight'', JNum PosInf)]\<rparr>,
            \<lparr>c_id = asc ''b'', c_name = asc ''Food'', c_type = Expense, c_rest = []\<rparr>,
            \<lparr>c_id = fst (createId (asc ''cat'') (afterLoad ?W)), c_name = asc ''Rent'',
             c_type = Expense, c_rest = []\<rparr>],
         entries = []\<rparr>"
      by (simp add: addCategory_eq load_weightDoc trim_def isWhiteSpace_def asc_def)
    have "map c_rest (categories (loaded (snd (addCategory (asc ''Rent'') Expense ?W)))) =
        map (c_rest \<circ> asCategory \<circ> categoryJson)
          (categories (fst (addCategory (asc ''Rent'') Expense ?W)))"
      by (rule categories_reloaded [OF store_addCategory]) (simp_all add: val)
    then show ?thesis
      by (simp add: val asCategory_def categoryJson_def categoryKeys_def)
  qed
  then show "loaded (snd (addCategory (asc ''Rent'') Expense (storedWorld weightDoc)))
     \<noteq> fst (addCategory (asc ''Rent'') Expense (storedWorld weightDoc))"
    by auto
  have differ: "loaded (snd (deleteEntry (asc ''zz'') (storedWorld (oneEntryDoc n others))))
      \<noteq> fst (deleteEntry (asc ''zz'') (storedWorld (oneEntryDoc n others)))"
    if "map asEntry (filter isEntryItem
          (map entryJson (entries (loaded (storedWorld (oneEntryDoc n others))))))
        \<noteq> entries (loaded (storedWorld (oneEntryDoc n others)))" for n others
  proof -
    have same: "fst (deleteEntry (asc ''zz'') (storedWorld (oneEntryDoc n others)))
                  = loaded (storedWorld (oneEntryDoc n others))"
      by (simp add: deleteEntry_eq load_oneEntryDoc)
    from that
    have "entries (loaded (snd (deleteEntry (asc ''zz'') (storedWorld (oneEntryDoc n others)))))
            \<noteq> entries (fst (deleteEntry (asc ''zz'') (storedWorld (oneEntryDoc n others))))"
      by (simp add: entries_reloaded [OF store_deleteEntry] same)
    then show ?thesis by auto
  qed
  show "loaded (snd (deleteEntry (asc ''zz'') (storedWorld (oneEntryDoc PosInf []))))
     \<noteq> fst (deleteEntry (asc ''zz'') (storedWorld (oneEntryDoc PosInf [])))"
    by (rule differ) (simp add: load_oneEntryDoc)
  show "loaded (snd (deleteEntry (asc ''zz'') (storedWorld (oneEntryDoc NegZero []))))
     \<noteq> fst (deleteEntry (asc ''zz'') (storedWorld (oneEntryDoc NegZero [])))"
    by (rule differ) (simp add: load_oneEntryDoc asEntry_def entryJson_def)
  show "loaded (snd (deleteEntry (asc ''zz'')
            (storedWorld (oneEntryDoc (Fin 5) [(asc ''note'', JNum PosInf)]))))
     \<noteq> fst (deleteEntry (asc ''zz'')
            (storedWorld (oneEntryDoc (Fin 5) [(asc ''note'', JNum PosInf)])))"
    by (rule differ) (simp add: load_oneEntryDoc asEntry_def entryJson_def entryKeys_def)
  show "loaded (snd (deleteEntry (asc ''zz'')
            (storedWorld (oneEntryDoc (Fin 5) [(asc ''tag'', JNum PosInf)]))))
     \<noteq> fst (deleteEntry (asc ''zz'')
            (storedWorld (oneEntryDoc (Fin 5) [(asc ''tag'', JNum PosInf)])))"
    by (rule differ) (simp add: load_oneEntryDoc asEntry_def entryJson_def entryKeys_def)
qed

end
